theory Spec2Isabelle
  imports Main "HOL-Library.Word"
begin

section \<open>The window: callback registry, messages and the headless dummy window\<close>

text \<open>
  Source: \<^verbatim>\<open>gstglwindow.c\<close>. A window is a C object mutated in place from several threads;
  the model passes it as a record and every function that acts for a thread takes that
  thread as \<open>self\<close>. Function pointers handed in by the window's user are opaque: calling
  one is the event \<open>Call thread f data\<close> in \<open>wtrace\<close>. The two callbacks that the source
  itself passes around, \<^verbatim>\<open>draw_cb\<close> and \<^verbatim>\<open>_run_message_sync\<close>, are constructors of their
  own and are run by the model.

  The abstract class leaves the event loop to its subclasses. The only subclass in that source
  file is the dummy window, built on a GLib main context; a call into the class of a platform
  window is the event \<open>Backend_vfunc\<close>.
\<close>

type_synonym gpointer = nat
type_synonym fnptr = nat
type_synonym gthread = nat

datatype backend = Cocoa | X11 | Win32 | Wayland | Dispmanx | Android | Eagl

datatype window_class = Platform backend | Dummy

datatype cb_kind = Draw | Resize | Close

datatype window_cb = Client fnptr | Draw_cb

datatype message_cb = Window_cb window_cb | Run_message_sync

record GstGLSyncMessage =
  sync_fired :: bool
  sync_callback :: "window_cb option"
  sync_data :: gpointer

record GstGLMessage =
  msg_callback :: "message_cb option"
  msg_data :: gpointer
  msg_destroy :: "fnptr option"

datatype window_event =
    Window_lock
  | Window_unlock
  | Write_alive bool
  | Install cb_kind "fnptr option" gpointer "fnptr option"
  | Call gthread fnptr gpointer
  | Swap_buffers gthread
  | Loop_quit
  | Use_after_free
  | Backend_vfunc backend string

text \<open>
  The GLib objects behind a dummy window, as far as the window code relies on them. The
  context and the loop created by \<^verbatim>\<open>gst_gl_dummy_window_open\<close> are reference counted: the
  window holds one reference to each, the loop holds one to the context, and
  \<^verbatim>\<open>g_main_loop_run\<close> holds one to the loop for as long as a thread is inside it.
  \<^item> \<open>sources\<close>: the idle sources attached by \<^verbatim>\<open>g_main_context_invoke\<close> and not yet
    dispatched, oldest first;
  \<^item> \<open>owner\<close>: the thread that has acquired the context, which is the thread inside
    \<^verbatim>\<open>g_main_loop_run\<close>;
  \<^item> \<open>loop_running\<close>: the loop's \<^verbatim>\<open>is_running\<close> flag;
  \<^item> \<open>window_refs\<close>: the window still holds its references (it has not been closed);
  \<^item> \<open>freed\<close>: the last reference is gone, GLib has destroyed the context and, without
    calling them, the sources still attached; the window's pointer dangles.
\<close>

record gmain =
  sources :: "GstGLMessage list"
  owner :: "gthread option"
  loop_running :: bool
  window_refs :: bool
  freed :: bool

text \<open>
  The process-wide default main context, which GLib substitutes for a \<^verbatim>\<open>NULL\<close> context.
  It is never freed. Its owner is the thread, if any, that runs the application's main loop.
\<close>

record gdefault =
  default_sources :: "GstGLMessage list"
  default_owner :: "gthread option"

record window =
  klass :: window_class
  win_display :: "gpointer option"
  nav_created :: bool
  nav_alive :: bool
  alive :: bool
  is_drawing :: bool
  draw :: "fnptr option"
  draw_data :: gpointer
  draw_notify :: "fnptr option"
  resize :: "fnptr option"
  resize_data :: gpointer
  resize_notify :: "fnptr option"
  close :: "fnptr option"
  close_data :: gpointer
  close_notify :: "fnptr option"
  handle :: nat
  main_context :: "gmain option"
  default_context :: gdefault
  thread_defaults :: "gthread list"
  syncs :: "GstGLSyncMessage list"
  wtrace :: "window_event list"

text \<open>
  \<open>syncs\<close> holds the \<^verbatim>\<open>GstGLSyncMessage\<close> structs that senders keep on their stacks; the
  address of a struct is its index. \<open>main_context\<close> is the dummy window's pointer of that
  name: \<open>None\<close> is \<^verbatim>\<open>NULL\<close>, its value until \<^verbatim>\<open>gst_gl_dummy_window_open\<close>; the source
  never resets it. \<open>default_context\<close> and \<open>thread_defaults\<close> are the part of the process
  around the window that \<^verbatim>\<open>g_main_context_invoke\<close> consults: the default main context,
  and the threads that have pushed a thread-default context of their own (as the
  navigation thread does in \<^verbatim>\<open>gst_gl_window_open_navigation\<close>). Reading or releasing GLib
  memory that has been freed is the event \<open>Use_after_free\<close>.
\<close>

datatype outcome = Returned window | Waiting window

fun outcome_window :: "outcome \<Rightarrow> window" where
  "outcome_window (Returned w) = w"
| "outcome_window (Waiting w) = w"

definition wlog :: "window_event list \<Rightarrow> window \<Rightarrow> window" where
  "wlog es w = w\<lparr>wtrace := wtrace w @ es\<rparr>"

subsection \<open>Construction\<close>

text \<open>
  \<^verbatim>\<open>g_object_new\<close> zero-fills the instance; then \<^verbatim>\<open>gst_gl_window_init\<close> runs. The
  window starts in a process whose default main context is idle: nothing attached, no
  thread running it.
\<close>

definition gst_gl_window_init :: "window_class \<Rightarrow> window" where
  "gst_gl_window_init k =
     \<lparr>klass = k, win_display = None, nav_created = False, nav_alive = False, alive = False,
      is_drawing = False, draw = None, draw_data = 0, draw_notify = None, resize = None,
      resize_data = 0, resize_notify = None, close = None, close_data = 0,
      close_notify = None, handle = 0, main_context = None,
      default_context = \<lparr>default_sources = [], default_owner = None\<rparr>,
      thread_defaults = [], syncs = [], wtrace = []\<rparr>"

definition gst_gl_dummy_window_new :: window where
  "gst_gl_dummy_window_new = (gst_gl_window_init Dummy)\<lparr>handle := 0\<rparr>"

text \<open>
  \<^verbatim>\<open>g_strstr_len (haystack, haystack_len, needle)\<close> of GLib, as a test for a non-\<^verbatim>\<open>NULL\<close>
  result: \<open>needle\<close> occurs in \<open>haystack\<close> at a position \<open>p\<close> such that the occurrence lies
  within the first \<open>haystack_len\<close> bytes and \<open>p\<close> is before the terminating zero.
\<close>

definition g_strstr_len :: "string \<Rightarrow> nat \<Rightarrow> string \<Rightarrow> bool" where
  "g_strstr_len haystack haystack_len needle =
     (if needle = [] then True
      else if haystack_len < length needle then False
      else list_ex
             (\<lambda>p. p < length haystack \<and> take (length needle) (drop p haystack) = needle)
             [0 ..< Suc (haystack_len - length needle)])"

text \<open>
  What the build and the platform decide for \<^verbatim>\<open>gst_gl_window_new\<close>: which
  \<^verbatim>\<open>GST_GL_HAVE_WINDOW_*\<close> macros are set, and whether a backend's constructor returns a
  window or \<^verbatim>\<open>NULL\<close>.
\<close>

record factory_config =
  have_window :: "backend \<Rightarrow> bool"
  backend_new :: "backend \<Rightarrow> bool"

fun backend_name :: "backend \<Rightarrow> string" where
  "backend_name Cocoa = ''cocoa''"
| "backend_name X11 = ''x11''"
| "backend_name Win32 = ''win32''"
| "backend_name Wayland = ''wayland''"
| "backend_name Dispmanx = ''dispmanx''"
| "backend_name Android = ''android''"
| "backend_name Eagl = ''eagl''"

fun backend_len :: "backend \<Rightarrow> nat" where
  "backend_len Cocoa = 5"
| "backend_len X11 = 3"
| "backend_len Win32 = 5"
| "backend_len Wayland = 7"
| "backend_len Dispmanx = 8"
| "backend_len Android = 7"
| "backend_len Eagl = 4"

text \<open>\<^verbatim>\<open>!user_choice || g_strstr_len (user_choice, n, "name")\<close>\<close>

definition user_allows :: "string option \<Rightarrow> backend \<Rightarrow> bool" where
  "user_allows user_choice b =
     (case user_choice of
        None \<Rightarrow> True
      | Some c \<Rightarrow> g_strstr_len c (backend_len b) (backend_name b))"

text \<open>
  One \<^verbatim>\<open>#if GST_GL_HAVE_WINDOW_X ... if (!window && (...)) window = ..._new (); #endif\<close>
  block. The state is the \<^verbatim>\<open>window\<close> variable and the list of constructors called so far.
\<close>

definition try_backend ::
  "factory_config \<Rightarrow> string option \<Rightarrow> backend \<Rightarrow> window option \<times> backend list
     \<Rightarrow> window option \<times> backend list" where
  "try_backend cfg user_choice b st =
     (if have_window cfg b \<and> fst st = None \<and> user_allows user_choice b
      then (if backend_new cfg b then Some (gst_gl_window_init (Platform b)) else None,
            snd st @ [b])
      else st)"

text \<open>
  \<^verbatim>\<open>gst_gl_window_new\<close>. The navigation thread started at the end runs
  \<^verbatim>\<open>gst_gl_window_open_navigation\<close>, which sets \<^verbatim>\<open>nav_alive\<close> and signals the condition the
  constructor waits on. The result is the window returned and the backend constructors that
  were called, in call order.
\<close>

definition gst_gl_window_new ::
  "factory_config \<Rightarrow> string option \<Rightarrow> gpointer option \<Rightarrow> window option \<times> backend list" where
  "gst_gl_window_new cfg user_choice disp =
     (case disp of
        None \<Rightarrow> (None, [])
      | Some d \<Rightarrow>
          (let st0 = (None, []);
               st1 = try_backend cfg user_choice Cocoa st0;
               st2 = try_backend cfg user_choice X11 st1;
               st3 = try_backend cfg user_choice Win32 st2;
               st4 = try_backend cfg user_choice Wayland st3;
               st5 = try_backend cfg user_choice Dispmanx st4;
               st6 = try_backend cfg user_choice Android st5;
               st7 = try_backend cfg user_choice Eagl st6;
               w1 = (case fst st7 of None \<Rightarrow> gst_gl_dummy_window_new | Some w \<Rightarrow> w);
               w2 = w1\<lparr>win_display := Some d\<rparr>;
               w3 = (if \<not> nav_created w2 then w2\<lparr>nav_alive := True, nav_created := True\<rparr>
                     else w2)
           in (Some w3, snd st7)))"

subsection \<open>Callback registry\<close>

definition call_notify :: "gthread \<Rightarrow> fnptr option \<Rightarrow> gpointer \<Rightarrow> window \<Rightarrow> window" where
  "call_notify self notify data w =
     (case notify of None \<Rightarrow> w | Some f \<Rightarrow> wlog [Call self f data] w)"

definition gst_gl_window_set_draw_callback ::
  "gthread \<Rightarrow> window \<Rightarrow> fnptr option \<Rightarrow> gpointer \<Rightarrow> fnptr option \<Rightarrow> window" where
  "gst_gl_window_set_draw_callback self w callback data destroy_notify =
     (let w1 = wlog [Window_lock] w;
          w2 = call_notify self (draw_notify w1) (draw_data w1) w1;
          w3 = (wlog [Install Draw callback data destroy_notify] w2)
                 \<lparr>draw := callback, draw_data := data, draw_notify := destroy_notify\<rparr>
      in wlog [Window_unlock] w3)"

definition gst_gl_window_set_resize_callback ::
  "gthread \<Rightarrow> window \<Rightarrow> fnptr option \<Rightarrow> gpointer \<Rightarrow> fnptr option \<Rightarrow> window" where
  "gst_gl_window_set_resize_callback self w callback data destroy_notify =
     (let w1 = wlog [Window_lock] w;
          w2 = call_notify self (resize_notify w1) (resize_data w1) w1;
          w3 = (wlog [Install Resize callback data destroy_notify] w2)
                 \<lparr>resize := callback, resize_data := data, resize_notify := destroy_notify\<rparr>
      in wlog [Window_unlock] w3)"

definition gst_gl_window_set_close_callback ::
  "gthread \<Rightarrow> window \<Rightarrow> fnptr option \<Rightarrow> gpointer \<Rightarrow> fnptr option \<Rightarrow> window" where
  "gst_gl_window_set_close_callback self w callback data destroy_notify =
     (let w1 = wlog [Window_lock] w;
          w2 = call_notify self (close_notify w1) (close_data w1) w1;
          w3 = (wlog [Install Close callback data destroy_notify] w2)
                 \<lparr>close := callback, close_data := data, close_notify := destroy_notify\<rparr>
      in wlog [Window_unlock] w3)"

definition gst_gl_window_is_running :: "window \<Rightarrow> bool" where
  "gst_gl_window_is_running w = alive w"


subsection \<open>Messages and the dummy window's main loop\<close>

text \<open>
  \<^verbatim>\<open>draw_cb\<close>: the window belongs to a context for its whole life, so
  \<^verbatim>\<open>gst_gl_window_get_context\<close> resolves; \<^verbatim>\<open>swap_buffers\<close> is a call into that context.
\<close>

definition draw_cb :: "gthread \<Rightarrow> window \<Rightarrow> window" where
  "draw_cb self w =
     (let w1 = (case draw w of None \<Rightarrow> w | Some f \<Rightarrow> wlog [Call self f (draw_data w)] w)
      in wlog [Swap_buffers self] w1)"

text \<open>Calling a \<^verbatim>\<open>GstGLWindowCB\<close> value: \<open>callback (data)\<close>.\<close>

definition call_window_cb :: "gthread \<Rightarrow> window_cb \<Rightarrow> gpointer \<Rightarrow> window \<Rightarrow> window" where
  "call_window_cb self cb data w =
     (case cb of
        Client f \<Rightarrow> wlog [Call self f data] w
      | Draw_cb \<Rightarrow> draw_cb self w)"

text \<open>
  \<^verbatim>\<open>_run_message_sync (message)\<close>, with \<open>addr\<close> the address of the sender's struct. The
  struct's own mutex and condition are the subject of the interleaved model further down;
  here the function runs without interruption.
\<close>

definition run_message_sync :: "gthread \<Rightarrow> nat \<Rightarrow> window \<Rightarrow> window" where
  "run_message_sync self addr w =
     (if addr < length (syncs w) then
        (let m = syncs w ! addr;
             w1 = (case sync_callback m of
                     None \<Rightarrow> w
                   | Some cb \<Rightarrow> call_window_cb self cb (sync_data m) w)
         in w1\<lparr>syncs := (syncs w1)[addr := (syncs w1 ! addr)\<lparr>sync_fired := True\<rparr>]\<rparr>)
      else w)"

definition call_message_cb :: "gthread \<Rightarrow> message_cb \<Rightarrow> gpointer \<Rightarrow> window \<Rightarrow> window" where
  "call_message_cb self cb data w =
     (case cb of
        Window_cb c \<Rightarrow> call_window_cb self c data w
      | Run_message_sync \<Rightarrow> run_message_sync self data w)"

text \<open>\<^verbatim>\<open>_run_message\<close>; it returns \<^verbatim>\<open>FALSE\<close>, so GLib runs it once and drops the source.\<close>

definition run_message :: "gthread \<Rightarrow> GstGLMessage \<Rightarrow> window \<Rightarrow> window" where
  "run_message self message w =
     (let w1 = (case msg_callback message of
                  None \<Rightarrow> w
                | Some cb \<Rightarrow> call_message_cb self cb (msg_data message) w)
      in call_notify self (msg_destroy message) (msg_data message) w1)"

text \<open>
  GLib's \<^verbatim>\<open>g_main_context_invoke (context, function, data)\<close>, which the dummy window
  calls with its \<^verbatim>\<open>main_context\<close> pointer:
  \<^item> a \<^verbatim>\<open>NULL\<close> context stands for the default main context;
  \<^item> if the calling thread owns the context, \<open>function (data)\<close> is called directly;
  \<^item> otherwise, if the context is the calling thread's thread-default context and the
    thread can acquire it, \<open>function (data)\<close> is called directly as well and the context
    is released again. A thread that has pushed no context of its own has the default main
    context as its thread-default; nothing in the source pushes the dummy window's context,
    so this case arises for the default context only;
  \<^item> in any other case an idle source is attached and the thread that runs the context
    calls it later. No destroy notification is attached to the source
    (\<^verbatim>\<open>g_main_context_invoke\<close> passes \<^verbatim>\<open>NULL\<close> for it).

  The pointer is \<^verbatim>\<open>NULL\<close> for a dummy window that has not been opened. After the context
  has been freed the pointer dangles and the call reads freed memory.
\<close>

definition g_main_context_invoke :: "gthread \<Rightarrow> GstGLMessage \<Rightarrow> window \<Rightarrow> window" where
  "g_main_context_invoke self message w =
     (case main_context w of
        None \<Rightarrow>
          (let g = default_context w
           in if default_owner g = Some self then run_message self message w
              else if self \<notin> set (thread_defaults w) \<and> default_owner g = None
                then run_message self message w
              else w\<lparr>default_context := g\<lparr>default_sources := default_sources g @ [message]\<rparr>\<rparr>)
      | Some ctx \<Rightarrow>
          (if freed ctx then wlog [Use_after_free] w
           else if owner ctx = Some self then run_message self message w
           else w\<lparr>main_context := Some (ctx\<lparr>sources := sources ctx @ [message]\<rparr>)\<rparr>))"

definition gst_gl_dummy_window_send_message_async ::
  "gthread \<Rightarrow> window \<Rightarrow> message_cb option \<Rightarrow> gpointer \<Rightarrow> fnptr option \<Rightarrow> window" where
  "gst_gl_dummy_window_send_message_async self w callback data destroy =
     g_main_context_invoke self
       \<lparr>msg_callback = callback, msg_data = data, msg_destroy = destroy\<rparr> w"

definition gst_gl_window_send_message_async ::
  "gthread \<Rightarrow> window \<Rightarrow> message_cb option \<Rightarrow> gpointer \<Rightarrow> fnptr option \<Rightarrow> window" where
  "gst_gl_window_send_message_async self w callback data destroy =
     (if callback = None then w
      else (case klass w of
              Dummy \<Rightarrow> gst_gl_dummy_window_send_message_async self w callback data destroy
            | Platform b \<Rightarrow> wlog [Backend_vfunc b ''send_message_async''] w))"

text \<open>
  \<^verbatim>\<open>gst_gl_window_default_send_message\<close>, read sequentially: the struct is set up, the
  asynchronous message is sent, and the sender enters \<^verbatim>\<open>while (!message.fired)\<close>. If the
  message has run by then the function returns; otherwise the sender is parked in
  \<^verbatim>\<open>g_cond_wait\<close>, which is the outcome \<open>Waiting\<close>. Each time the parked sender wakes up
  it tests \<^verbatim>\<open>message.fired\<close> again (\<open>gst_gl_window_default_send_message_wake\<close>).
\<close>

definition gst_gl_window_default_send_message_wake :: "nat \<Rightarrow> window \<Rightarrow> outcome" where
  "gst_gl_window_default_send_message_wake addr w =
     (if sync_fired (syncs w ! addr) then Returned w else Waiting w)"

definition gst_gl_window_default_send_message ::
  "gthread \<Rightarrow> window \<Rightarrow> window_cb option \<Rightarrow> gpointer \<Rightarrow> outcome" where
  "gst_gl_window_default_send_message self w callback data =
     (let addr = length (syncs w);
          w1 = w\<lparr>syncs := syncs w
                 @ [\<lparr>sync_fired = False, sync_callback = callback, sync_data = data\<rparr>]\<rparr>;
          w2 = gst_gl_window_send_message_async self w1 (Some Run_message_sync) addr None
      in if sync_fired (syncs w2 ! addr) then Returned w2 else Waiting w2)"

definition gst_gl_window_send_message ::
  "gthread \<Rightarrow> window \<Rightarrow> window_cb option \<Rightarrow> gpointer \<Rightarrow> outcome" where
  "gst_gl_window_send_message self w callback data =
     (if callback = None then Returned w
      else gst_gl_window_default_send_message self w callback data)"

text \<open>The data pointer handed to \<^verbatim>\<open>draw_cb\<close> is the window itself; the model has one window.\<close>

definition gst_gl_dummy_window_draw :: "gthread \<Rightarrow> window \<Rightarrow> outcome" where
  "gst_gl_dummy_window_draw self w = gst_gl_window_send_message self w (Some Draw_cb) 0"

definition gst_gl_window_draw :: "gthread \<Rightarrow> window \<Rightarrow> outcome" where
  "gst_gl_window_draw self w =
     (if is_drawing w then Returned w
      else (case klass w of
              Dummy \<Rightarrow> gst_gl_dummy_window_draw self w
            | Platform b \<Rightarrow> Returned (wlog [Backend_vfunc b ''draw''] w)))"

text \<open>\<^verbatim>\<open>g_main_loop_quit\<close> clears the loop's \<^verbatim>\<open>is_running\<close> flag.\<close>

definition gst_gl_dummy_window_quit :: "window \<Rightarrow> window" where
  "gst_gl_dummy_window_quit w =
     (wlog [Loop_quit] w)
       \<lparr>main_context := map_option (\<lambda>ctx. ctx\<lparr>loop_running := False\<rparr>) (main_context w)\<rparr>"

definition gst_gl_window_quit :: "window \<Rightarrow> window" where
  "gst_gl_window_quit w =
     (let w1 = wlog [Window_lock] w;
          w2 = (wlog [Write_alive False] w1)\<lparr>alive := False\<rparr>;
          w3 = (case klass w2 of
                  Dummy \<Rightarrow> gst_gl_dummy_window_quit w2
                | Platform b \<Rightarrow> wlog [Backend_vfunc b ''quit''] w2)
      in wlog [Window_unlock] w3)"

text \<open>
  \<^verbatim>\<open>g_main_context_new\<close> and \<^verbatim>\<open>g_main_loop_new (context, FALSE)\<close>: the window holds a
  reference to both.
\<close>

definition gst_gl_dummy_window_open :: "window \<Rightarrow> window" where
  "gst_gl_dummy_window_open w =
     w\<lparr>main_context := Some \<lparr>sources = [], owner = None, loop_running = False,
                               window_refs = True, freed = False\<rparr>\<rparr>"

text \<open>
  \<^verbatim>\<open>gst_gl_dummy_window_close\<close> gives up the window's references to the loop and to the
  context and leaves both pointers as they are.
  \<^item> On a window never opened both pointers are \<^verbatim>\<open>NULL\<close> and the two unref functions
    return at their argument check.
  \<^item> While a thread is inside \<^verbatim>\<open>g_main_loop_run\<close>, that call holds a reference to the
    loop and the loop one to the context: context and pending sources stay, and are freed
    when the thread leaves the loop.
  \<^item> Otherwise these were the last references: GLib frees loop and context and destroys
    the sources still attached without calling them.
  \<^item> A second close releases references the window no longer holds.
\<close>

definition gst_gl_dummy_window_close :: "window \<Rightarrow> window" where
  "gst_gl_dummy_window_close w =
     (case main_context w of
        None \<Rightarrow> w
      | Some ctx \<Rightarrow>
          (if freed ctx \<or> \<not> window_refs ctx then wlog [Use_after_free] w
           else if owner ctx = None
             then w\<lparr>main_context := Some (ctx\<lparr>sources := [], window_refs := False, freed := True\<rparr>)\<rparr>
           else w\<lparr>main_context := Some (ctx\<lparr>window_refs := False\<rparr>)\<rparr>))"

text \<open>
  \<^verbatim>\<open>gst_gl_window_run\<close> sets \<^verbatim>\<open>alive\<close> and enters \<^verbatim>\<open>g_main_loop_run\<close>, which does not
  return until the loop is quit. The model splits that call in three: entering the loop
  (the calling thread acquires the context), one dispatch of the oldest pending source by
  the owning thread, and leaving the loop once \<^verbatim>\<open>is_running\<close> is clear. A dispatch is
  made only while \<^verbatim>\<open>is_running\<close> is set. \<^verbatim>\<open>g_main_loop_run (NULL)\<close> returns at its
  argument check. Leaving the loop releases the context and the reference the call held;
  if the window has been closed in the meantime, that was the last one.
\<close>

definition gst_gl_window_run :: "gthread \<Rightarrow> window \<Rightarrow> window" where
  "gst_gl_window_run self w =
     (let w1 = (wlog [Write_alive True] w)\<lparr>alive := True\<rparr>
      in case klass w1 of
           Dummy \<Rightarrow>
             (case main_context w1 of
                None \<Rightarrow> w1
              | Some ctx \<Rightarrow>
                  (if freed ctx then wlog [Use_after_free] w1
                   else w1\<lparr>main_context := Some (ctx\<lparr>owner := Some self, loop_running := True\<rparr>)\<rparr>))
         | Platform b \<Rightarrow> wlog [Backend_vfunc b ''run''] w1)"

definition g_main_loop_dispatch :: "window \<Rightarrow> window" where
  "g_main_loop_dispatch w =
     (case main_context w of
        None \<Rightarrow> w
      | Some ctx \<Rightarrow>
          (case (owner ctx, sources ctx) of
             (Some t, m # ms) \<Rightarrow>
               (if loop_running ctx \<and> \<not> freed ctx
                then run_message t m (w\<lparr>main_context := Some (ctx\<lparr>sources := ms\<rparr>)\<rparr>)
                else w)
           | _ \<Rightarrow> w))"

definition g_main_loop_leave :: "window \<Rightarrow> window" where
  "g_main_loop_leave w =
     (case main_context w of
        None \<Rightarrow> w
      | Some ctx \<Rightarrow>
          (if loop_running ctx \<or> freed ctx then w
           else if window_refs ctx then w\<lparr>main_context := Some (ctx\<lparr>owner := None\<rparr>)\<rparr>
           else w\<lparr>main_context := Some (ctx\<lparr>sources := [], owner := None, freed := True\<rparr>)\<rparr>))"

text \<open>
  One dispatch of the oldest source attached to the default main context, by the thread
  that runs the application's main loop.
\<close>

definition g_main_default_dispatch :: "window \<Rightarrow> window" where
  "g_main_default_dispatch w =
     (let g = default_context w
      in case (default_owner g, default_sources g) of
           (Some t, m # ms) \<Rightarrow> run_message t m (w\<lparr>default_context := g\<lparr>default_sources := ms\<rparr>\<rparr>)
         | _ \<Rightarrow> w)"



section \<open>The image sink: texture hand-off, redisplay and GL-thread callbacks\<close>

text \<open>
  Source: the sink element (\<^verbatim>\<open>gst_glimage_sink_*\<close>). The element is a C struct mutated in
  place; the model passes it as a record and returns the updated record. Everything the
  element does to the outside (locking, buffer reference counting, GL calls, signals,
  requests to the window) is appended to \<open>sink_trace\<close> in program order, so that
  statements about the order of effects are statements about that list.

  \<^verbatim>\<open>gint\<close> and \<^verbatim>\<open>guint\<close> are 32-bit words; a \<^verbatim>\<open>gint\<close> is compared with the signed
  orders \<open><s\<close> and \<open>\<le>s\<close>. Object pointers are \<open>nat option\<close>, \<open>None\<close> being \<^verbatim>\<open>NULL\<close>.
\<close>

type_synonym gint = "32 word"
type_synonym guint = "32 word"
type_synonym gstbuffer = nat

datatype sink_event =
    Drawing_lock
  | Drawing_unlock
  | Buffer_ref gstbuffer
  | Buffer_unref gstbuffer
  | Write_redisplay_texture guint
  | Write_stored_buffer "gstbuffer option"
  | Upload_release_buffer
  | Element_error
  | Object_unref string
  | Pool_set_inactive
  | Shader_new
  | Shader_compile bool
  | Shader_unref
  | Gl string
  | Gl_viewport gint gint
  | Gl_viewport_centered guint guint gint gint
  | Client_reshape gint gint
  | Client_draw guint
  | Window_set_preferred_size
  | Window_draw
  | Window_set_callbacks_null
  | Parent_query
  | Display_filter_gl_api

text \<open>
  The sink reaches its window through \<^verbatim>\<open>gst_gl_context_get_window (gl_sink->context)\<close>.
  Of the window it reads \<^verbatim>\<open>priv->alive\<close> (through \<^verbatim>\<open>gst_gl_window_is_running\<close>) and
  reads and writes \<^verbatim>\<open>is_drawing\<close> (field \<open>drawing\<close>); of the context it reads the GL
  function table, where \<^verbatim>\<open>GenVertexArrays\<close> may be absent. The element's struct is declared
  in a header; \<open>window_width\<close> and \<open>window_height\<close> are taken to be \<^verbatim>\<open>guint\<close> there.
\<close>

record window_view =
  running :: bool
  drawing :: bool

record gl_context =
  ctx_window :: "window_view option"
  gen_vertex_arrays :: bool
  using_opengl :: bool

record sink =
  redisplay_texture :: guint
  stored_buffer :: "gstbuffer option"
  next_tex :: guint
  next_buffer :: "gstbuffer option"
  to_quit :: int
  keep_aspect_ratio :: bool
  caps_change :: bool
  window_width :: guint
  window_height :: guint
  video_sink_width :: guint
  video_sink_height :: guint
  redisplay_shader :: "nat option"
  vao :: guint
  vertex_buffer :: guint
  window_id :: nat
  new_window_id :: nat
  upload :: "nat option"
  convert :: "nat option"
  pool :: "nat option"
  display :: "nat option"
  sink_context :: "gl_context option"
  sink_trace :: "sink_event list"

text \<open>
  What the external GL layer hands back during one call: the outcome of
  \<^verbatim>\<open>gst_gl_shader_compile_with_default_vf_and_check\<close> and the names of the objects created.
\<close>

record gl_results =
  compile_ok :: bool
  new_shader :: nat
  new_vao :: guint
  new_vertex_buffer :: guint

datatype flow_return = GST_FLOW_OK | GST_FLOW_ERROR | GST_FLOW_NOT_NEGOTIATED


datatype state_change =
    NULL_TO_READY | READY_TO_PAUSED | PAUSED_TO_PLAYING
  | PLAYING_TO_PAUSED | PAUSED_TO_READY | READY_TO_NULL

datatype state_change_return =
    GST_STATE_CHANGE_FAILURE | GST_STATE_CHANGE_SUCCESS
  | GST_STATE_CHANGE_ASYNC | GST_STATE_CHANGE_NO_PREROLL

definition emit :: "sink_event list \<Rightarrow> sink \<Rightarrow> sink" where
  "emit es s = s\<lparr>sink_trace := sink_trace s @ es\<rparr>"

text \<open>
  The two fields shared between the streaming thread and the GL thread are written through
  these helpers, which also record the write in the trace; where a write stands relative to
  \<open>Drawing_lock\<close> and \<open>Drawing_unlock\<close> is then visible there.
\<close>

definition write_redisplay_texture :: "guint \<Rightarrow> sink \<Rightarrow> sink" where
  "write_redisplay_texture v s = (emit [Write_redisplay_texture v] s)\<lparr>redisplay_texture := v\<rparr>"

definition write_stored_buffer :: "gstbuffer option \<Rightarrow> sink \<Rightarrow> sink" where
  "write_stored_buffer b s = (emit [Write_stored_buffer b] s)\<lparr>stored_buffer := b\<rparr>"

definition gst_gl_context_get_window :: "gl_context option \<Rightarrow> window_view option" where
  "gst_gl_context_get_window c = (case c of None \<Rightarrow> None | Some x \<Rightarrow> ctx_window x)"


text \<open>\<^verbatim>\<open>#define MAX(a, b) (((a) > (b)) ? (a) : (b))\<close> on \<^verbatim>\<open>gint\<close>.\<close>

definition MAX_gint :: "gint \<Rightarrow> gint \<Rightarrow> gint" where
  "MAX_gint a b = (if b <s a then a else b)"

text \<open>
  The functions below run on the GL thread and start with
  \<^verbatim>\<open>gl = gl_sink->context->gl_vtable\<close>; with \<^verbatim>\<open>context == NULL\<close> that is a NULL dereference,
  which the model returns as \<open>None\<close>.
\<close>

definition bind_buffer :: "sink \<Rightarrow> sink" where
  "bind_buffer s =
     emit [Gl ''BindBuffer'', Gl ''BufferData'', Gl ''VertexAttribPointer'',
           Gl ''VertexAttribPointer'', Gl ''EnableVertexAttribArray'',
           Gl ''EnableVertexAttribArray''] s"

definition unbind_buffer :: "sink \<Rightarrow> sink" where
  "unbind_buffer s =
     emit [Gl ''BindBuffer'', Gl ''DisableVertexAttribArray'',
           Gl ''DisableVertexAttribArray''] s"

definition gst_glimage_sink_cleanup_glthread :: "sink \<Rightarrow> sink option" where
  "gst_glimage_sink_cleanup_glthread s =
     (case sink_context s of
        None \<Rightarrow> None
      | Some c \<Rightarrow>
          (let s1 = (if redisplay_shader s \<noteq> None
                     then (emit [Shader_unref] s)\<lparr>redisplay_shader := None\<rparr>
                     else s);
               s2 = (if vao s1 \<noteq> 0
                     then (emit [Gl ''DeleteVertexArrays''] s1)\<lparr>vao := 0\<rparr>
                     else s1)
           in Some s2))"

definition gst_glimage_sink_thread_init_redisplay :: "gl_results \<Rightarrow> sink \<Rightarrow> sink option" where
  "gst_glimage_sink_thread_init_redisplay r s =
     (case sink_context s of
        None \<Rightarrow> None
      | Some c \<Rightarrow>
          (let s1 = (emit [Shader_new] s)\<lparr>redisplay_shader := Some (new_shader r)\<rparr>;
               s2 = emit [Shader_compile (compile_ok r)] s1
           in case (if \<not> compile_ok r then gst_glimage_sink_cleanup_glthread s2 else Some s2) of
                None \<Rightarrow> None
              | Some s3 \<Rightarrow>
                  (let s4 = (if gen_vertex_arrays c
                             then (emit [Gl ''GenVertexArrays'', Gl ''BindVertexArray''] s3)
                                    \<lparr>vao := new_vao r\<rparr>
                             else s3);
                       s5 = bind_buffer
                              ((emit [Gl ''GenBuffers''] s4)
                                 \<lparr>vertex_buffer := new_vertex_buffer r\<rparr>);
                       s6 = (if gen_vertex_arrays c
                             then emit [Gl ''BindVertexArray'', Gl ''BindBuffer''] s5
                             else unbind_buffer s5)
                   in Some s6)))"

text \<open>
  \<^verbatim>\<open>gst_glimage_sink_on_resize\<close>. \<open>do_reshape\<close> is what the client-reshape signal handlers
  returned. \<^verbatim>\<open>gst_video_sink_center_rect\<close> followed by \<^verbatim>\<open>gl->Viewport (result...)\<close> is one
  event carrying the source and destination sizes.
\<close>

definition gst_glimage_sink_on_resize :: "bool \<Rightarrow> sink \<Rightarrow> gint \<Rightarrow> gint \<Rightarrow> sink option" where
  "gst_glimage_sink_on_resize do_reshape s width height =
     (case sink_context s of
        None \<Rightarrow> None
      | Some c \<Rightarrow>
          (let s1 = emit [Client_reshape width height] s;
               width' = MAX_gint 1 width;
               height' = MAX_gint 1 height;
               s2 = s1\<lparr>window_width := width', window_height := height'\<rparr>
           in Some
                (if \<not> do_reshape
                 then (if keep_aspect_ratio s2
                       then emit [Gl_viewport_centered (video_sink_width s2)
                                    (video_sink_height s2) width' height'] s2
                       else emit [Gl_viewport width' height'] s2)
                 else s2)))"



text \<open>
  \<^verbatim>\<open>gst_glimage_sink_redisplay\<close>. The window is used through its interface:
  \<^verbatim>\<open>gst_gl_window_send_message\<close> has run its callback when it returns, so the call of
  \<^verbatim>\<open>gst_glimage_sink_thread_init_redisplay\<close> is made in place; \<^verbatim>\<open>gst_gl_window_draw\<close> hands
  the request to the backend unless \<^verbatim>\<open>is_drawing\<close> is set, which is the event
  \<open>Window_draw\<close>. The draw callback itself runs later, on the GL thread.
\<close>

definition gst_gl_window_draw_request :: "window_view \<Rightarrow> sink \<Rightarrow> sink" where
  "gst_gl_window_draw_request w s = (if drawing w then s else emit [Window_draw] s)"

definition gst_glimage_sink_redisplay :: "gl_results \<Rightarrow> sink \<Rightarrow> (bool \<times> sink) option" where
  "gst_glimage_sink_redisplay r s =
     (case gst_gl_context_get_window (sink_context s) of
        None \<Rightarrow> Some (False, s)
      | Some w \<Rightarrow>
          (if running w then
             (case (if redisplay_shader s = None
                    then gst_glimage_sink_thread_init_redisplay r s else Some s) of
                None \<Rightarrow> None
              | Some s1 \<Rightarrow>
                  (if redisplay_shader s = None \<and> redisplay_shader s1 = None
                   then Some (False, s1)
                   else Some (running w,
                              gst_gl_window_draw_request w
                                (emit [Window_set_preferred_size] s1))))
           else Some (running w, s)))"

text \<open>\<^verbatim>\<open>gst_glimage_sink_show_frame\<close>; \<^verbatim>\<open>gst_buffer_ref (NULL)\<close> returns \<^verbatim>\<open>NULL\<close>.\<close>

definition gst_buffer_ref :: "gstbuffer option \<Rightarrow> sink \<Rightarrow> sink" where
  "gst_buffer_ref b s = (case b of None \<Rightarrow> s | Some x \<Rightarrow> emit [Buffer_ref x] s)"

definition gst_buffer_unref_if :: "gstbuffer option \<Rightarrow> sink \<Rightarrow> sink" where
  "gst_buffer_unref_if b s = (case b of None \<Rightarrow> s | Some x \<Rightarrow> emit [Buffer_unref x] s)"

definition gst_glimage_sink_show_frame :: "gl_results \<Rightarrow> sink \<Rightarrow> (flow_return \<times> sink) option" where
  "gst_glimage_sink_show_frame r s =
     (let s1 = emit [Drawing_lock] s;
          s2 = write_redisplay_texture (next_tex s1) s1;
          stored = stored_buffer s2;
          s3 = write_stored_buffer (next_buffer s2) (gst_buffer_ref (next_buffer s2) s2);
          s4 = emit [Drawing_unlock] s3
      in case gst_glimage_sink_redisplay r s4 of
           None \<Rightarrow> None
         | Some (ok, s5) \<Rightarrow>
             (if \<not> ok
              then Some (GST_FLOW_ERROR, emit [Upload_release_buffer, Element_error] s5)
              else
                (let s6 = gst_buffer_unref_if stored s5
                 in if to_quit s6 \<noteq> 0
                    then Some (GST_FLOW_ERROR, emit [Element_error, Upload_release_buffer] s6)
                    else Some (GST_FLOW_OK, s6))))"






text \<open>The part of a window that the sink model looks at.\<close>

definition view_of :: "window \<Rightarrow> window_view" where
  "view_of w = \<lparr>running = gst_gl_window_is_running w, drawing = is_drawing w\<rparr>"


section \<open>The synchronous message hand-shake, interleaved\<close>

text \<open>
  \<^verbatim>\<open>gst_gl_window_default_send_message\<close> runs on the sending thread and
  \<^verbatim>\<open>_run_message_sync\<close> runs on the window thread; they meet in the
  \<^verbatim>\<open>GstGLSyncMessage\<close> on the sender's stack: its mutex, its condition and its \<open>fired\<close>
  flag. Each of the two is cut into steps at its synchronisation points, one program counter
  per step, and a schedule says which of the two moves next.

  Sender (\<^verbatim>\<open>gst_gl_window_default_send_message\<close>):
  \<^item> \<open>S_send\<close>: fill in the struct with \<open>fired = FALSE\<close>, call
    \<^verbatim>\<open>gst_gl_window_send_message_async (window, _run_message_sync, &message, NULL)\<close>;
  \<^item> \<open>S_lock\<close>: \<^verbatim>\<open>g_mutex_lock (&message.lock)\<close>;
  \<^item> \<open>S_test\<close>: the loop test \<^verbatim>\<open>while (!message.fired)\<close>; when it holds, enter
    \<^verbatim>\<open>g_cond_wait\<close>, which releases the mutex;
  \<^item> \<open>S_wait\<close>: wake up inside \<^verbatim>\<open>g_cond_wait\<close> and take the mutex again;
  \<^item> \<open>S_unlock\<close>: \<^verbatim>\<open>g_mutex_unlock\<close>, clear mutex and condition;
  \<^item> \<open>S_done\<close>: returned.

  Runner (\<^verbatim>\<open>_run_message_sync\<close>, called through \<^verbatim>\<open>_run_message\<close> on the window thread):
  \<^item> \<open>R_idle\<close>: not called yet; it can be called once the message has been sent;
  \<^item> \<open>R_lock\<close>: \<^verbatim>\<open>g_mutex_lock (&message->lock)\<close>;
  \<^item> \<open>R_call\<close>: \<^verbatim>\<open>if (message->callback) message->callback (message->data)\<close>;
  \<^item> \<open>R_fire\<close>: \<^verbatim>\<open>message->fired = TRUE\<close>;
  \<^item> \<open>R_signal\<close>: \<^verbatim>\<open>g_cond_signal\<close>;
  \<^item> \<open>R_unlock\<close>: \<^verbatim>\<open>g_mutex_unlock\<close>;
  \<^item> \<open>R_done\<close>: returned.

  A thread waiting on a GLib condition may wake up without a signal, so the sender may
  leave \<open>S_wait\<close> whenever the mutex is free, signalled or not; \<open>signalled\<close> records that
  \<^verbatim>\<open>g_cond_signal\<close> has been called. A step that has to wait (for the mutex, or for the
  message to be sent) is not enabled: \<open>hs_step\<close> returns \<open>None\<close> and the schedule moves
  on.

  Which thread the runner is, is not decided here but by \<^verbatim>\<open>g_main_context_invoke\<close> in
  the window model above; the runner is a thread of its own whenever the message was
  queued. When the sender itself owns the context, \<^verbatim>\<open>_run_message_sync\<close> runs inside the
  sender's first step and there is nothing to interleave.
\<close>

datatype actor = Sender | Runner

datatype sender_pc = S_send | S_lock | S_test | S_wait | S_unlock | S_done

datatype runner_pc = R_idle | R_lock | R_call | R_fire | R_signal | R_unlock | R_done

record handshake =
  spc :: sender_pc
  rpc :: runner_pc
  sent :: bool
  fired :: bool
  signalled :: bool
  mutex :: "actor option"
  hs_callback :: "fnptr option"
  hs_data :: gpointer
  hs_ran :: "(actor \<times> fnptr \<times> gpointer) list"

text \<open>The state in which \<^verbatim>\<open>gst_gl_window_default_send_message (window, callback, data)\<close> is entered.\<close>

definition hs_init :: "fnptr option \<Rightarrow> gpointer \<Rightarrow> handshake" where
  "hs_init callback data =
     \<lparr>spc = S_send, rpc = R_idle, sent = False, fired = False, signalled = False,
      mutex = None,
      hs_callback = callback, hs_data = data, hs_ran = []\<rparr>"

definition sender_step :: "handshake \<Rightarrow> handshake option" where
  "sender_step h =
     (case spc h of
        S_send \<Rightarrow> Some (h\<lparr>fired := False, sent := True, spc := S_lock\<rparr>)
      | S_lock \<Rightarrow>
          (if mutex h = None then Some (h\<lparr>mutex := Some Sender, spc := S_test\<rparr>) else None)
      | S_test \<Rightarrow>
          (if \<not> fired h then Some (h\<lparr>mutex := None, spc := S_wait\<rparr>)
           else Some (h\<lparr>spc := S_unlock\<rparr>))
      | S_wait \<Rightarrow>
          (if mutex h = None then Some (h\<lparr>mutex := Some Sender, spc := S_test\<rparr>) else None)
      | S_unlock \<Rightarrow> Some (h\<lparr>mutex := None, spc := S_done\<rparr>)
      | S_done \<Rightarrow> None)"

definition runner_step :: "handshake \<Rightarrow> handshake option" where
  "runner_step h =
     (case rpc h of
        R_idle \<Rightarrow> (if sent h then Some (h\<lparr>rpc := R_lock\<rparr>) else None)
      | R_lock \<Rightarrow>
          (if mutex h = None then Some (h\<lparr>mutex := Some Runner, rpc := R_call\<rparr>) else None)
      | R_call \<Rightarrow>
          Some ((case hs_callback h of
                   None \<Rightarrow> h
                 | Some f \<Rightarrow> h\<lparr>hs_ran := hs_ran h @ [(Runner, f, hs_data h)]\<rparr>)\<lparr>rpc := R_fire\<rparr>)
      | R_fire \<Rightarrow> Some (h\<lparr>fired := True, rpc := R_signal\<rparr>)
      | R_signal \<Rightarrow> Some (h\<lparr>signalled := True, rpc := R_unlock\<rparr>)
      | R_unlock \<Rightarrow> Some (h\<lparr>mutex := None, rpc := R_done\<rparr>)
      | R_done \<Rightarrow> None)"

definition hs_step :: "actor \<Rightarrow> handshake \<Rightarrow> handshake option" where
  "hs_step a h = (case a of Sender \<Rightarrow> sender_step h | Runner \<Rightarrow> runner_step h)"

text \<open>Running a schedule: each entry lets that actor take its next step if it is enabled.\<close>

fun hs_exec :: "actor list \<Rightarrow> handshake \<Rightarrow> handshake" where
  "hs_exec [] h = h"
| "hs_exec (a # as) h = hs_exec as (case hs_step a h of None \<Rightarrow> h | Some h' \<Rightarrow> h')"

text \<open>
  A schedule in which the sender reaches the wait before the window thread picks the
  message up, and one in which the message has run before the sender looks.
\<close>

definition late_runner :: "actor list" where
  "late_runner =
     [Sender, Sender, Sender, Runner, Runner, Runner, Sender, Sender, Runner, Runner,
      Runner, Sender, Sender, Sender]"

definition early_runner :: "actor list" where
  "early_runner =
     [Sender, Runner, Runner, Runner, Runner, Runner, Runner, Sender, Sender, Sender]"


subsection \<open>Concrete sinks used to evaluate the model\<close>

definition ex_context :: gl_context where
  "ex_context =
     \<lparr>ctx_window = Some \<lparr>running = True, drawing = False\<rparr>,
      gen_vertex_arrays = True, using_opengl = True\<rparr>"

text \<open>A negotiated sink with a running window, nothing presented yet and no shader built.\<close>

definition ex_sink :: sink where
  "ex_sink =
     \<lparr>redisplay_texture = 0, stored_buffer = None, next_tex = 0, next_buffer = None,
      to_quit = 0, keep_aspect_ratio = True, caps_change = False, window_width = 0,
      window_height = 0, video_sink_width = 320, video_sink_height = 240,
      redisplay_shader = None, vao = 0, vertex_buffer = 0, window_id = 0, new_window_id = 0,
      upload = Some 1, convert = Some 2, pool = Some 3, display = Some 4,
      sink_context = Some ex_context, sink_trace = []\<rparr>"

text \<open>
  The same sink in the middle of playback: buffer 3 with texture 8 is on display, buffer 4
  with texture 9 has been prepared.
\<close>

definition playing_sink :: sink where
  "playing_sink =
     ex_sink\<lparr>redisplay_texture := 8, stored_buffer := Some 3, next_tex := 9,
              next_buffer := Some 4, redisplay_shader := Some 5, vao := 1\<rparr>"

text \<open>The playing sink after its window has stopped running.\<close>

definition stopped_sink :: sink where
  "stopped_sink =
     playing_sink\<lparr>sink_context :=
       Some (ex_context\<lparr>ctx_window := Some \<lparr>running = False, drawing = False\<rparr>\<rparr>)\<rparr>"

definition compile_fails :: gl_results where
  "compile_fails = \<lparr>compile_ok = False, new_shader = 5, new_vao = 1, new_vertex_buffer = 1\<rparr>"

definition compile_succeeds :: gl_results where
  "compile_succeeds = \<lparr>compile_ok = True, new_shader = 5, new_vao = 1, new_vertex_buffer = 1\<rparr>"

fun is_compile :: "sink_event \<Rightarrow> bool" where
  "is_compile (Shader_compile ok) = True"
| "is_compile e = False"

definition compile_attempts :: "sink_event list \<Rightarrow> nat" where
  "compile_attempts es = length (filter is_compile es)"

text \<open>
  Two calls of \<^verbatim>\<open>gst_glimage_sink_redisplay\<close> in a row: the two return values and the number
  of shader compilations attempted over both.
\<close>

definition redisplay_twice :: "gl_results \<Rightarrow> gl_results \<Rightarrow> sink \<Rightarrow> (bool \<times> bool \<times> nat) option" where
  "redisplay_twice r1 r2 s =
     (case gst_glimage_sink_redisplay r1 s of
        None \<Rightarrow> None
      | Some (b1, s1) \<Rightarrow>
          (case gst_glimage_sink_redisplay r2 s1 of
             None \<Rightarrow> None
           | Some (b2, s2) \<Rightarrow>
               Some (b1, b2, compile_attempts (drop (length (sink_trace s)) (sink_trace s2)))))"

definition unref_events :: "gstbuffer option \<Rightarrow> sink_event list" where
  "unref_events b = (case b of None \<Rightarrow> [] | Some x \<Rightarrow> [Buffer_unref x])"

definition ref_events :: "gstbuffer option \<Rightarrow> sink_event list" where
  "ref_events b = (case b of None \<Rightarrow> [] | Some x \<Rightarrow> [Buffer_ref x])"







subsection \<open>Concrete windows and factory configurations\<close>

text \<open>Thread 1 is the window (GL) thread, thread 2 a streaming thread.\<close>

text \<open>
  A dummy window that has been opened and whose loop thread 1 is running, with client
  function 10 registered as draw callback on context pointer 77 and function 11 as its
  destroy notification.
\<close>

definition running_dummy :: window where
  "running_dummy =
     gst_gl_window_run 1
       (gst_gl_window_set_draw_callback 2
          (gst_gl_dummy_window_open gst_gl_dummy_window_new) (Some 10) 77 (Some 11))"

text \<open>The number of times the registered draw callback has been called.\<close>

fun is_call_of :: "fnptr \<Rightarrow> window_event \<Rightarrow> bool" where
  "is_call_of f (Call t g d) = (f = g)"
| "is_call_of f e = False"

definition calls_of :: "fnptr \<Rightarrow> window \<Rightarrow> nat" where
  "calls_of f w = length (filter (is_call_of f) (wtrace w))"

text \<open>Every backend compiled in and every constructor succeeding; nothing compiled in.\<close>

definition all_backends :: factory_config where
  "all_backends = \<lparr>have_window = (\<lambda>b. True), backend_new = (\<lambda>b. True)\<rparr>"

definition no_backends :: factory_config where
  "no_backends = \<lparr>have_window = (\<lambda>b. False), backend_new = (\<lambda>b. False)\<rparr>"

text \<open>A Linux build: X11 and Wayland compiled in, but no X server to connect to.\<close>

definition linux_no_x :: factory_config where
  "linux_no_x =
     \<lparr>have_window = (\<lambda>b. b = X11 \<or> b = Wayland), backend_new = (\<lambda>b. b = Wayland)\<rparr>"

text \<open>
  The order of the blocks in \<^verbatim>\<open>gst_gl_window_new\<close>, and the constructors a walk down a
  list of candidates calls: each in turn, up to and including the first that succeeds.
\<close>

definition priority_order :: "backend list" where
  "priority_order = [Cocoa, X11, Win32, Wayland, Dispmanx, Android, Eagl]"

fun tried_until_success :: "(backend \<Rightarrow> bool) \<Rightarrow> backend list \<Rightarrow> backend list" where
  "tried_until_success ok [] = []"
| "tried_until_success ok (b # bs) = (if ok b then [b] else b # tried_until_success ok bs)"

fun first_success :: "(backend \<Rightarrow> bool) \<Rightarrow> backend list \<Rightarrow> backend option" where
  "first_success ok [] = None"
| "first_success ok (b # bs) = (if ok b then Some b else first_success ok bs)"

definition candidates :: "factory_config \<Rightarrow> string option \<Rightarrow> backend list" where
  "candidates cfg user_choice =
     filter (\<lambda>b. have_window cfg b \<and> user_allows user_choice b) priority_order"

definition matches_some_backend :: "string option \<Rightarrow> bool" where
  "matches_some_backend user_choice = list_ex (user_allows user_choice) priority_order"

text \<open>The call of a destructor, if there is one.\<close>

definition notify_events :: "gthread \<Rightarrow> fnptr option \<Rightarrow> gpointer \<Rightarrow> window_event list" where
  "notify_events self notify data = (case notify of None \<Rightarrow> [] | Some f \<Rightarrow> [Call self f data])"

text \<open>
  Where the two program counters stand: whether the runner has made the callback, whether
  it has set \<open>fired\<close>, whether it has signalled, whether it holds the mutex; whether the
  sender holds the mutex, and whether it has left its loop.
\<close>

fun called :: "runner_pc \<Rightarrow> bool" where
  "called R_idle = False"
| "called R_lock = False"
| "called R_call = False"
| "called R_fire = True"
| "called R_signal = True"
| "called R_unlock = True"
| "called R_done = True"

fun has_fired :: "runner_pc \<Rightarrow> bool" where
  "has_fired R_signal = True"
| "has_fired R_unlock = True"
| "has_fired R_done = True"
| "has_fired p = False"

fun has_signalled :: "runner_pc \<Rightarrow> bool" where
  "has_signalled R_unlock = True"
| "has_signalled R_done = True"
| "has_signalled p = False"

fun runner_holds :: "runner_pc \<Rightarrow> bool" where
  "runner_holds R_call = True"
| "runner_holds R_fire = True"
| "runner_holds R_signal = True"
| "runner_holds R_unlock = True"
| "runner_holds p = False"

fun sender_holds :: "sender_pc \<Rightarrow> bool" where
  "sender_holds S_test = True"
| "sender_holds S_unlock = True"
| "sender_holds p = False"

fun past_loop :: "sender_pc \<Rightarrow> bool" where
  "past_loop S_unlock = True"
| "past_loop S_done = True"
| "past_loop p = False"

text \<open>
  The invariant of the hand-shake for callback \<open>f\<close> and data \<open>d\<close>: the struct keeps its
  callback and data; the runner does not start before the message is sent, and the message
  is sent by the sender's first step; the callback has run, once and on the runner, exactly
  when the runner is past \<open>R_call\<close>; \<open>fired\<close> and \<open>signalled\<close> are set exactly when the
  runner is past \<open>R_fire\<close> and \<open>R_signal\<close>; the mutex is held by whoever is between its
  lock and its unlock; and the sender is past its loop only if the runner has returned.
\<close>

definition hs_inv :: "fnptr \<Rightarrow> gpointer \<Rightarrow> handshake \<Rightarrow> bool" where
  "hs_inv f d h \<longleftrightarrow>
     hs_callback h = Some f \<and> hs_data h = d
     \<and> (sent h \<or> rpc h = R_idle)
     \<and> (sent h \<longleftrightarrow> spc h \<noteq> S_send)
     \<and> hs_ran h = (if called (rpc h) then [(Runner, f, d)] else [])
     \<and> (fired h \<longleftrightarrow> has_fired (rpc h))
     \<and> (signalled h \<longleftrightarrow> has_signalled (rpc h))
     \<and> mutex h = (if runner_holds (rpc h) then Some Runner
                   else if sender_holds (spc h) then Some Sender else None)
     \<and> \<not> (runner_holds (rpc h) \<and> sender_holds (spc h))
     \<and> (past_loop (spc h) \<longrightarrow> rpc h = R_done)"

text \<open>
  The running dummy window is quit and thread 1 leaves the loop: \<^verbatim>\<open>gst_gl_window_run\<close>
  has returned. Then thread 2 sends the window an asynchronous message (client function 20
  on data 5, destroy function 21), and after that the window is closed.
\<close>

definition stopped_dummy :: window where
  "stopped_dummy = g_main_loop_leave (gst_gl_window_quit running_dummy)"

definition message_queued :: window where
  "message_queued =
     gst_gl_window_send_message_async 2 stopped_dummy (Some (Window_cb (Client 20))) 5 (Some 21)"

definition queued_then_closed :: window where
  "queued_then_closed = gst_gl_dummy_window_close message_queued"

text \<open>
  The same message sent by thread 2 while thread 1 is inside the loop; the window is quit
  before the loop gets to dispatch it, thread 1 leaves the loop, and the window is closed.
\<close>

definition queued_while_running :: window where
  "queued_while_running =
     gst_gl_window_send_message_async 2 running_dummy (Some (Window_cb (Client 20))) 5 (Some 21)"

definition quit_before_dispatch :: window where
  "quit_before_dispatch =
     gst_gl_dummy_window_close (g_main_loop_leave (gst_gl_window_quit queued_while_running))"

text \<open>
  A message with client function \<open>c\<close>, data \<open>d\<close> and destroy function \<open>f\<close>, and the
  message that carries \<^verbatim>\<open>_run_message_sync\<close> for the struct at \<open>addr\<close>.
\<close>

definition client_message :: "fnptr \<Rightarrow> gpointer \<Rightarrow> fnptr \<Rightarrow> GstGLMessage" where
  "client_message c d f =
     \<lparr>msg_callback = Some (Window_cb (Client c)), msg_data = d, msg_destroy = Some f\<rparr>"

definition sync_message :: "nat \<Rightarrow> GstGLMessage" where
  "sync_message addr =
     \<lparr>msg_callback = Some Run_message_sync, msg_data = addr, msg_destroy = None\<rparr>"

text \<open>
  A dummy window as its constructor returns it, which nobody has opened yet. Thread 2
  sends it a synchronous message (client function 20 on data 5): once in a process where no
  thread runs the default main context, once where thread 9 runs the application's main
  loop on it.
\<close>

definition unopened_dummy :: window where
  "unopened_dummy = gst_gl_dummy_window_new"

definition sent_before_open :: outcome where
  "sent_before_open = gst_gl_window_send_message 2 unopened_dummy (Some (Client 20)) 5"

definition unopened_dummy_app_loop :: window where
  "unopened_dummy_app_loop =
     unopened_dummy\<lparr>default_context := \<lparr>default_sources = [], default_owner = Some 9\<rparr>\<rparr>"

definition sent_before_open_app_loop :: outcome where
  "sent_before_open_app_loop =
     gst_gl_window_send_message 2 unopened_dummy_app_loop (Some (Client 20)) 5"

text \<open>
  Thread 2 sends the running dummy window a synchronous message (client function 20 on
  data 5); the struct is the first one, at address 0.
\<close>

definition sent_while_running :: outcome where
  "sent_while_running = gst_gl_window_send_message 2 running_dummy (Some (Client 20)) 5"

text \<open>The window thread quits the running dummy window and then asks it to draw.\<close>

definition quit_then_draw :: outcome where
  "quit_then_draw = gst_gl_window_draw 1 (gst_gl_window_quit running_dummy)"

text \<open>A playing sink whose window is the running dummy window after \<^verbatim>\<open>gst_gl_window_quit\<close>.\<close>

definition sink_after_quit :: sink where
  "sink_after_quit =
     playing_sink\<lparr>sink_context :=
       Some (ex_context\<lparr>ctx_window := Some (view_of (gst_gl_window_quit running_dummy))\<rparr>)\<rparr>"

text \<open>An outcome with the \<open>alive\<close> flag of its window overwritten.\<close>

fun with_alive :: "bool \<Rightarrow> outcome \<Rightarrow> outcome" where
  "with_alive a (Returned w) = Returned (w\<lparr>alive := a\<rparr>)"
| "with_alive a (Waiting w) = Waiting (w\<lparr>alive := a\<rparr>)"

section \<open>Properties of the image sink\<close>

subsection \<open>Resize stores a window size of at least 1x1\<close>

lemma MAX_gint_1_sle: "1 \<le>s MAX_gint 1 w"
  by (simp add: MAX_gint_def word_sle_eq word_sless_alt)

lemma MAX_gint_1_sint: "sint (MAX_gint 1 w) = max 1 (sint w)"
  by (simp add: MAX_gint_def word_sless_alt max_def)

lemma MAX_gint_1_keeps: "1 \<le>s w \<Longrightarrow> MAX_gint 1 w = w"
  by (simp add: MAX_gint_def word_sle_eq word_sless_alt)

lemma MAX_gint_1_clamps: "w <s 1 \<Longrightarrow> MAX_gint 1 w = 1"
  by (simp add: MAX_gint_def)

lemma sle_1_le:
  fixes w :: "32 word"
  assumes "1 \<le>s w"
  shows "1 \<le> w"
proof -
  have "w \<noteq> 0" using assms by (auto simp: word_sle_eq)
  then have "unat w \<noteq> 0" by (simp add: unat_eq_zero)
  then show ?thesis by (simp add: word_le_nat_alt)
qed

text \<open>
  C10. Whenever the resize callback runs (the sink has its GL context, as it does for as
  long as the callback is registered), it returns, and for any 32-bit signed \<open>width\<close> and
  \<open>height\<close>:
  \<^item> the stored \<open>window_width\<close> is the larger of 1 and \<open>width\<close> as signed integers, and
    likewise the stored \<open>window_height\<close>;
  \<^item> a \<open>width\<close> of at least 1 is stored unchanged, and a \<open>width\<close> below 1 (zero or
    negative) is stored as 1; likewise for \<open>height\<close>;
  \<^item> so the stored values are at least 1, read as signed and as unsigned integers.
\<close>

theorem on_resize_clamps_window_size:
  assumes "sink_context s \<noteq> None"
  shows "\<exists>s'. gst_glimage_sink_on_resize do_reshape s width height = Some s'
           \<and> sint (window_width s') = max 1 (sint width)
           \<and> sint (window_height s') = max 1 (sint height)
           \<and> (1 \<le>s width \<longrightarrow> window_width s' = width)
           \<and> (width <s 1 \<longrightarrow> window_width s' = 1)
           \<and> (1 \<le>s height \<longrightarrow> window_height s' = height)
           \<and> (height <s 1 \<longrightarrow> window_height s' = 1)
           \<and> 1 \<le>s window_width s' \<and> 1 \<le>s window_height s'
           \<and> 1 \<le> window_width s' \<and> 1 \<le> window_height s'"
proof -
  from assms obtain c where c: "sink_context s = Some c" by auto
  define s' where "s' = the (gst_glimage_sink_on_resize do_reshape s width height)"
  have r: "gst_glimage_sink_on_resize do_reshape s width height = Some s'"
    by (simp add: s'_def gst_glimage_sink_on_resize_def c Let_def)
  have w: "window_width s' = MAX_gint 1 width"
    by (simp add: s'_def gst_glimage_sink_on_resize_def c Let_def emit_def)
  have h: "window_height s' = MAX_gint 1 height"
    by (simp add: s'_def gst_glimage_sink_on_resize_def c Let_def emit_def)
  have "sint (window_width s') = max 1 (sint width)"
    and "sint (window_height s') = max 1 (sint height)"
    by (simp_all only: w h MAX_gint_1_sint)
  moreover have "1 \<le>s width \<longrightarrow> window_width s' = width"
    and "1 \<le>s height \<longrightarrow> window_height s' = height"
    by (simp_all add: w h MAX_gint_1_keeps)
  moreover have "width <s 1 \<longrightarrow> window_width s' = 1"
    and "height <s 1 \<longrightarrow> window_height s' = 1"
    by (simp_all add: w h MAX_gint_1_clamps)
  moreover have "1 \<le>s window_width s'" and "1 \<le>s window_height s'"
    by (simp_all only: w h MAX_gint_1_sle)
  moreover have "1 \<le> window_width s'" and "1 \<le> window_height s'"
    by (simp_all only: w h sle_1_le [OF MAX_gint_1_sle])
  ultimately show ?thesis using r by blast
qed

theorem on_resize_clamps_window_size_witness:
  "sink_context ex_sink \<noteq> None
   \<and> (\<exists>s'. gst_glimage_sink_on_resize False ex_sink 640 480 = Some s'
          \<and> window_width s' = 640 \<and> window_height s' = 480)
   \<and> (\<exists>s'. gst_glimage_sink_on_resize False ex_sink (- 5) 0 = Some s'
          \<and> window_width s' = 1 \<and> window_height s' = 1)
   \<and> (\<exists>s'. gst_glimage_sink_on_resize True ex_sink 1 (- 2147483648) = Some s'
          \<and> window_width s' = 1 \<and> window_height s' = 1)"
proof -
  have c: "sink_context ex_sink \<noteq> None" by (simp add: ex_sink_def)
  have a: "(1::32 word) \<le>s 640" "(1::32 word) \<le>s 480" "(1::32 word) \<le>s 1"
    by (simp_all add: word_sle_eq)
  have b: "(- 5 :: 32 word) <s 1" "(0 :: 32 word) <s 1" "(- 2147483648 :: 32 word) <s 1"
    by (simp_all add: word_sless_alt)
  show ?thesis
    using on_resize_clamps_window_size [OF c, of False 640 480]
      on_resize_clamps_window_size [OF c, of False "- 5" 0]
      on_resize_clamps_window_size [OF c, of True 1 "- 2147483648"] a b c
    by blast
qed

subsection \<open>Drain and teardown clear the presentable state\<close>




















subsection \<open>A shader that fails to build is built again at the next redisplay\<close>


lemma compile_attempts_append [simp]:
  "compile_attempts (xs @ ys) = compile_attempts xs + compile_attempts ys"
  by (simp add: compile_attempts_def)

lemma cleanup_glthread_effect:
  assumes "sink_context s = Some c"
  shows "\<exists>s' es. gst_glimage_sink_cleanup_glthread s = Some s'
           \<and> redisplay_shader s' = None \<and> sink_context s' = Some c
           \<and> sink_trace s' = sink_trace s @ es
           \<and> compile_attempts es = 0 \<and> Window_draw \<notin> set es"
  using assms
  by (auto simp: gst_glimage_sink_cleanup_glthread_def emit_def Let_def compile_attempts_def)

lemma thread_init_redisplay_effect:
  assumes "sink_context s = Some c"
  shows "\<exists>s' es. gst_glimage_sink_thread_init_redisplay r s = Some s'
           \<and> redisplay_shader s' = (if compile_ok r then Some (new_shader r) else None)
           \<and> sink_context s' = Some c
           \<and> sink_trace s' = sink_trace s @ es
           \<and> compile_attempts es = 1 \<and> Window_draw \<notin> set es"
proof -
  define s2 where "s2 = emit [Shader_compile (compile_ok r)]
     ((emit [Shader_new] s)\<lparr>redisplay_shader := Some (new_shader r)\<rparr>)"
  have s2: "sink_context s2 = Some c" "redisplay_shader s2 = Some (new_shader r)"
     "sink_trace s2 = sink_trace s @ [Shader_new, Shader_compile (compile_ok r)]"
    using assms by (simp_all add: s2_def emit_def)
  obtain s3 es3 where s3: "(if \<not> compile_ok r then gst_glimage_sink_cleanup_glthread s2 else Some s2) = Some s3"
     "redisplay_shader s3 = (if compile_ok r then Some (new_shader r) else None)"
     "sink_context s3 = Some c" "sink_trace s3 = sink_trace s2 @ es3"
     "compile_attempts es3 = 0" "Window_draw \<notin> set es3"
  proof (cases "compile_ok r")
    case True
    then show ?thesis using that [of s2 "[]"] s2 by (simp add: compile_attempts_def)
  next
    case False
    then show ?thesis using that cleanup_glthread_effect [OF s2(1)] by auto
  qed
  define tail where "tail = (\<lambda>x. let s4 = (if gen_vertex_arrays c
                             then (emit [Gl ''GenVertexArrays'', Gl ''BindVertexArray''] x)
                                    \<lparr>vao := new_vao r\<rparr>
                             else x);
                       s5 = bind_buffer
                              ((emit [Gl ''GenBuffers''] s4)
                                 \<lparr>vertex_buffer := new_vertex_buffer r\<rparr>)
                   in (if gen_vertex_arrays c
                             then emit [Gl ''BindVertexArray'', Gl ''BindBuffer''] s5
                             else unbind_buffer s5))"
  define s6 where "s6 = tail s3"
  have "gst_glimage_sink_thread_init_redisplay r s =
          (case (if \<not> compile_ok r then gst_glimage_sink_cleanup_glthread s2 else Some s2) of
             None \<Rightarrow> None | Some x \<Rightarrow> Some (tail x))"
    using assms
    by (simp add: gst_glimage_sink_thread_init_redisplay_def s2_def tail_def Let_def
        split: option.split)
  then have r: "gst_glimage_sink_thread_init_redisplay r s = Some s6"
    by (simp only: s3(1) s6_def option.case)
  have k: "redisplay_shader s6 = redisplay_shader s3" "sink_context s6 = sink_context s3"
    by (simp_all add: s6_def tail_def Let_def emit_def bind_buffer_def unbind_buffer_def)
  have "\<exists>es6. sink_trace s6 = sink_trace s3 @ es6 \<and> compile_attempts es6 = 0
           \<and> Window_draw \<notin> set es6"
    by (simp add: s6_def tail_def Let_def emit_def bind_buffer_def unbind_buffer_def
        compile_attempts_def)
  then obtain es6 where e: "sink_trace s6 = sink_trace s3 @ es6" "compile_attempts es6 = 0"
      "Window_draw \<notin> set es6"
    by blast
  have "sink_trace s6 = sink_trace s @ ([Shader_new, Shader_compile (compile_ok r)] @ es3 @ es6)"
    using e s3 s2 by simp
  moreover have "compile_attempts ([Shader_new, Shader_compile (compile_ok r)] @ es3 @ es6) = 1"
    using e s3 by (simp add: compile_attempts_def)
  moreover have "Window_draw \<notin> set ([Shader_new, Shader_compile (compile_ok r)] @ es3 @ es6)"
    using e s3 by simp
  ultimately show ?thesis using r k s3
    by (intro exI [of _ s6] exI [of _ "[Shader_new, Shader_compile (compile_ok r)] @ es3 @ es6"])
      simp
qed

lemma redisplay_on_running_window:
  assumes "gst_gl_context_get_window (sink_context s) = Some w" and "running w"
  shows "(redisplay_shader s = None \<longrightarrow>
            (\<exists>s' es. gst_glimage_sink_redisplay r s = Some (compile_ok r, s')
               \<and> redisplay_shader s' = (if compile_ok r then Some (new_shader r) else None)
               \<and> gst_gl_context_get_window (sink_context s') = Some w
               \<and> sink_trace s' = sink_trace s @ es
               \<and> compile_attempts es = 1
               \<and> (\<not> compile_ok r \<longrightarrow> Window_draw \<notin> set es)))
       \<and> (redisplay_shader s \<noteq> None \<longrightarrow>
            (\<exists>s' es. gst_glimage_sink_redisplay r s = Some (True, s')
               \<and> redisplay_shader s' = redisplay_shader s
               \<and> sink_trace s' = sink_trace s @ es
               \<and> compile_attempts es = 0))"
proof (intro conjI impI)
  assume n: "redisplay_shader s = None"
  from assms obtain c where c: "sink_context s = Some c" "ctx_window c = Some w"
    by (auto simp: gst_gl_context_get_window_def split: option.splits)
  obtain s1 es where i: "gst_glimage_sink_thread_init_redisplay r s = Some s1"
      "redisplay_shader s1 = (if compile_ok r then Some (new_shader r) else None)"
      "sink_context s1 = Some c" "sink_trace s1 = sink_trace s @ es"
      "compile_attempts es = 1" "Window_draw \<notin> set es"
    using thread_init_redisplay_effect [OF c(1), of r] by blast
  show "\<exists>s' es. gst_glimage_sink_redisplay r s = Some (compile_ok r, s')
               \<and> redisplay_shader s' = (if compile_ok r then Some (new_shader r) else None)
               \<and> gst_gl_context_get_window (sink_context s') = Some w
               \<and> sink_trace s' = sink_trace s @ es
               \<and> compile_attempts es = 1
               \<and> (\<not> compile_ok r \<longrightarrow> Window_draw \<notin> set es)"
  proof (cases "compile_ok r")
    case False
    then have "gst_glimage_sink_redisplay r s = Some (False, s1)"
      using assms n i by (simp add: gst_glimage_sink_redisplay_def)
    then show ?thesis using False i c by (auto simp: gst_gl_context_get_window_def)
  next
    case True
    define s2 where "s2 = gst_gl_window_draw_request w (emit [Window_set_preferred_size] s1)"
    have "gst_glimage_sink_redisplay r s = Some (True, s2)"
      using assms n i True by (simp add: gst_glimage_sink_redisplay_def s2_def)
    moreover have "redisplay_shader s2 = redisplay_shader s1" "sink_context s2 = sink_context s1"
      by (simp_all add: s2_def gst_gl_window_draw_request_def emit_def)
    moreover have "\<exists>es2. sink_trace s2 = sink_trace s @ (es @ es2) \<and> compile_attempts (es @ es2) = 1"
      using i by (simp add: s2_def gst_gl_window_draw_request_def emit_def compile_attempts_def)
    ultimately show ?thesis using True i c by (auto simp: gst_gl_context_get_window_def)
  qed
next
  assume n: "redisplay_shader s \<noteq> None"
  define s2 where "s2 = gst_gl_window_draw_request w (emit [Window_set_preferred_size] s)"
  have "gst_glimage_sink_redisplay r s = Some (True, s2)"
    using assms n by (auto simp: gst_glimage_sink_redisplay_def s2_def)
  moreover have "redisplay_shader s2 = redisplay_shader s"
    by (simp add: s2_def gst_gl_window_draw_request_def emit_def)
  moreover have "\<exists>es2. sink_trace s2 = sink_trace s @ es2 \<and> compile_attempts es2 = 0"
    by (simp add: s2_def gst_gl_window_draw_request_def emit_def compile_attempts_def)
  ultimately show "\<exists>s' es. gst_glimage_sink_redisplay r s = Some (True, s')
               \<and> redisplay_shader s' = redisplay_shader s
               \<and> sink_trace s' = sink_trace s @ es
               \<and> compile_attempts es = 0" by blast
qed

text \<open>
  C5, as the code has it. On a running window \<^verbatim>\<open>gst_glimage_sink_redisplay\<close> attempts the
  shader build whenever \<open>redisplay_shader\<close> is \<^verbatim>\<open>NULL\<close>, exactly once in that call. If
  the build fails the call returns false without asking the window to draw, and
  \<open>redisplay_shader\<close> is \<^verbatim>\<open>NULL\<close> again with the window unchanged, so the next call is in
  the same position and builds again; if the build succeeds the call returns true and the
  shader is kept. With a shader in place a call builds nothing and returns true.
\<close>

theorem redisplay_retries_failed_compile:
  assumes "gst_gl_context_get_window (sink_context s) = Some w" and "running w"
  shows "(redisplay_shader s = None \<longrightarrow>
            (\<exists>s' es. gst_glimage_sink_redisplay r s = Some (compile_ok r, s')
               \<and> redisplay_shader s' = (if compile_ok r then Some (new_shader r) else None)
               \<and> gst_gl_context_get_window (sink_context s') = Some w
               \<and> sink_trace s' = sink_trace s @ es
               \<and> compile_attempts es = 1
               \<and> (\<not> compile_ok r \<longrightarrow> Window_draw \<notin> set es)))
       \<and> (redisplay_shader s \<noteq> None \<longrightarrow>
            (\<exists>s' es. gst_glimage_sink_redisplay r s = Some (True, s')
               \<and> redisplay_shader s' = redisplay_shader s
               \<and> sink_trace s' = sink_trace s @ es
               \<and> compile_attempts es = 0))"
  using redisplay_on_running_window [OF assms] by blast

text \<open>
  C5 as stated fails: after a failed build the next redisplay builds again (two builds over
  two calls, where the claim allows one), and it returns true when that second build
  succeeds (where the claim has every later call return false).
\<close>

theorem redisplay_failure_not_latched_counterexample:
  "redisplay_twice compile_fails compile_succeeds ex_sink = Some (False, True, 2)
   \<and> redisplay_twice compile_fails compile_fails ex_sink = Some (False, False, 2)"
  by code_simp


theorem redisplay_retries_failed_compile_witness:
  "gst_gl_context_get_window (sink_context ex_sink) = Some \<lparr>running = True, drawing = False\<rparr>
   \<and> running \<lparr>running = True, drawing = False\<rparr>
   \<and> redisplay_shader ex_sink = None
   \<and> \<not> compile_ok compile_fails
   \<and> (\<exists>s' es. gst_glimage_sink_redisplay compile_fails ex_sink = Some (False, s')
          \<and> redisplay_shader s' = None
          \<and> gst_gl_context_get_window (sink_context s')
              = Some \<lparr>running = True, drawing = False\<rparr>
          \<and> sink_trace s' = sink_trace ex_sink @ es
          \<and> compile_attempts es = 1 \<and> Window_draw \<notin> set es)
   \<and> redisplay_shader playing_sink \<noteq> None
   \<and> (\<exists>s' es. gst_glimage_sink_redisplay compile_fails playing_sink = Some (True, s')
          \<and> redisplay_shader s' = Some 5
          \<and> sink_trace s' = sink_trace playing_sink @ es
          \<and> compile_attempts es = 0)"
proof -
  have w: "gst_gl_context_get_window (sink_context ex_sink) = Some \<lparr>running = True, drawing = False\<rparr>"
     "gst_gl_context_get_window (sink_context playing_sink) = Some \<lparr>running = True, drawing = False\<rparr>"
    by (simp_all add: gst_gl_context_get_window_def playing_sink_def ex_sink_def ex_context_def)
  have r: "running \<lparr>running = True, drawing = False\<rparr>" by simp
  have n: "redisplay_shader ex_sink = None" "redisplay_shader playing_sink = Some 5"
     "\<not> compile_ok compile_fails"
    by (simp_all add: playing_sink_def ex_sink_def compile_fails_def)
  show ?thesis
    using redisplay_retries_failed_compile [OF w(1) r, of compile_fails]
      redisplay_retries_failed_compile [OF w(2) r, of compile_fails] w r n
    by simp
qed


subsection \<open>Presenting a frame\<close>

text \<open>
  What \<^verbatim>\<open>gst_glimage_sink_show_frame\<close> does on every path: it takes the drawing lock,
  writes \<open>next_tex\<close> to \<open>redisplay_texture\<close>, takes a new reference to \<open>next_buffer\<close>
  and stores it, and drops the lock. When it returns \<^verbatim>\<open>GST_FLOW_OK\<close> the reference that was
  stored before is released last, after the redisplay.
\<close>

lemma redisplay_extends_trace:
  assumes "gst_glimage_sink_redisplay r s = Some (ok, s1)"
  shows "\<exists>es. sink_trace s1 = sink_trace s @ es"
proof (cases "gst_gl_context_get_window (sink_context s)")
  case None
  then show ?thesis using assms by (simp add: gst_glimage_sink_redisplay_def)
next
  case (Some w)
  show ?thesis
  proof (cases "running w")
    case False
    then show ?thesis using assms Some by (simp add: gst_glimage_sink_redisplay_def)
  next
    case True
    show ?thesis 
      using redisplay_on_running_window [OF Some True, of r] assms
      by (cases "redisplay_shader s = None") auto
  qed
qed

lemma show_frame_swaps_under_lock:
  assumes "gst_glimage_sink_show_frame r s = Some (f, s')"
  shows "\<exists>es. sink_trace s' = sink_trace s
             @ [Drawing_lock, Write_redisplay_texture (next_tex s)] @ ref_events (next_buffer s)
             @ [Write_stored_buffer (next_buffer s), Drawing_unlock] @ es
           \<and> (f = GST_FLOW_OK \<longrightarrow> (\<exists>es'. es = es' @ unref_events (stored_buffer s)))"
proof -
  define s4 where "s4 = emit [Drawing_unlock] (write_stored_buffer (next_buffer s)
      (gst_buffer_ref (next_buffer s) (write_redisplay_texture (next_tex s) (emit [Drawing_lock] s))))"
  have t4: "sink_trace s4 = sink_trace s
             @ [Drawing_lock, Write_redisplay_texture (next_tex s)] @ ref_events (next_buffer s)
             @ [Write_stored_buffer (next_buffer s), Drawing_unlock]"
    by (simp add: s4_def emit_def write_stored_buffer_def write_redisplay_texture_def
         gst_buffer_ref_def ref_events_def split: option.split)
  have sf: "gst_glimage_sink_show_frame r s =
     (case gst_glimage_sink_redisplay r s4 of
           None \<Rightarrow> None
         | Some (ok, s5) \<Rightarrow>
             (if \<not> ok
              then Some (GST_FLOW_ERROR, emit [Upload_release_buffer, Element_error] s5)
              else
                (let s6 = gst_buffer_unref_if (stored_buffer s) s5
                 in if to_quit s6 \<noteq> 0
                    then Some (GST_FLOW_ERROR, emit [Element_error, Upload_release_buffer] s6)
                    else Some (GST_FLOW_OK, s6))))"
    by (simp add: gst_glimage_sink_show_frame_def s4_def Let_def emit_def
        write_redisplay_texture_def split: option.split prod.split)
  from assms sf obtain ok s5 where rd: "gst_glimage_sink_redisplay r s4 = Some (ok, s5)"
    by (auto split: option.splits)
  then obtain es5 where t5: "sink_trace s5 = sink_trace s4 @ es5"
    using redisplay_extends_trace by blast
  show ?thesis
  proof (cases ok)
    case False
    then have "f = GST_FLOW_ERROR" "s' = emit [Upload_release_buffer, Element_error] s5"
      using assms sf rd by auto
    then show ?thesis using t4 t5 by (simp add: emit_def)
  next
    case True
    define s6 where "s6 = gst_buffer_unref_if (stored_buffer s) s5"
    have t6: "sink_trace s6 = sink_trace s5 @ unref_events (stored_buffer s)"
      by (simp add: s6_def gst_buffer_unref_if_def unref_events_def emit_def split: option.split)
    show ?thesis
    proof (cases "to_quit s6 \<noteq> 0")
      case True
      then have "f = GST_FLOW_ERROR" "s' = emit [Element_error, Upload_release_buffer] s6"
        using assms sf rd \<open>ok\<close> by (auto simp: s6_def Let_def)
      then show ?thesis using t4 t5 t6 by (simp add: emit_def)
    next
      case False
      then have "f = GST_FLOW_OK" "s' = s6"
        using assms sf rd \<open>ok\<close> by (auto simp: s6_def Let_def)
      then show ?thesis using t4 t5 t6 by simp
    qed
  qed
qed

text \<open>
  C2 at a sink whose window has stopped running, with buffer 3 stored and buffer 4
  prepared: the swap is made under the lock, the redisplay reports failure and the function
  leaves through \<^verbatim>\<open>redisplay_failed\<close>. The trace ends there; there is no
  \<open>Buffer_unref 3\<close> in it, and the sink no longer points to buffer 3.
\<close>

theorem show_frame_error_path_keeps_old_reference:
  "gst_glimage_sink_show_frame compile_succeeds stopped_sink
     = Some (GST_FLOW_ERROR,
             stopped_sink\<lparr>redisplay_texture := 9, stored_buffer := Some 4,
               sink_trace := [Drawing_lock, Write_redisplay_texture 9, Buffer_ref 4,
                              Write_stored_buffer (Some 4), Drawing_unlock,
                              Upload_release_buffer, Element_error]\<rparr>)
   \<and> stored_buffer stopped_sink = Some 3"
  by code_simp

section \<open>Properties of the window\<close>

subsection \<open>The factory\<close>


lemma try_backend_skip:
  "fst st \<noteq> None \<Longrightarrow> try_backend cfg uc b st = st"
  by (cases st) (auto simp: try_backend_def)

lemma try_backend_done:
  "fst st \<noteq> None \<Longrightarrow> foldl (\<lambda>st b. try_backend cfg uc b st) st bs = st"
  by (induction bs) (simp_all add: try_backend_skip)

lemma try_backend_fold:
  "foldl (\<lambda>st b. try_backend cfg uc b st) (None, tr) bs =
     (map_option (\<lambda>b. gst_gl_window_init (Platform b))
        (first_success (backend_new cfg)
           (filter (\<lambda>b. have_window cfg b \<and> user_allows uc b) bs)),
      tr @ tried_until_success (backend_new cfg)
             (filter (\<lambda>b. have_window cfg b \<and> user_allows uc b) bs))"
proof (induction bs arbitrary: tr)
  case Nil
  then show ?case by simp
next
  case (Cons b bs)
  show ?case
  proof (cases "have_window cfg b \<and> user_allows uc b")
    case False
    then have "try_backend cfg uc b (None, tr) = (None, tr)"
      by (auto simp: try_backend_def)
    then show ?thesis using Cons.IH [of tr] False by auto
  next
    case True
    show ?thesis
    proof (cases "backend_new cfg b")
      case ok: True
      have "try_backend cfg uc b (None, tr) = (Some (gst_gl_window_init (Platform b)), tr @ [b])"
        using True ok by (simp add: try_backend_def)
      then show ?thesis using True ok try_backend_done [of "(Some (gst_gl_window_init (Platform b)), tr @ [b])" cfg uc bs]
        by simp
    next
      case no: False
      have "try_backend cfg uc b (None, tr) = (None, tr @ [b])"
        using True no by (simp add: try_backend_def)
      then show ?thesis using True no Cons.IH [of "tr @ [b]"] by simp
    qed
  qed
qed

lemma window_new_as_fold:
  "gst_gl_window_new cfg uc (Some d) =
     (let st = foldl (\<lambda>st b. try_backend cfg uc b st) (None, []) priority_order;
          w1 = (case fst st of None \<Rightarrow> gst_gl_dummy_window_new | Some w \<Rightarrow> w);
          w2 = w1\<lparr>win_display := Some d\<rparr>;
          w3 = (if \<not> nav_created w2 then w2\<lparr>nav_alive := True, nav_created := True\<rparr> else w2)
      in (Some w3, snd st))"
  by (simp add: gst_gl_window_new_def priority_order_def Let_def)

lemma window_new_result:
  "gst_gl_window_new cfg uc (Some d) =
     (Some ((case first_success (backend_new cfg) (candidates cfg uc) of
               None \<Rightarrow> gst_gl_dummy_window_new
             | Some b \<Rightarrow> gst_gl_window_init (Platform b))
            \<lparr>win_display := Some d, nav_alive := True, nav_created := True\<rparr>),
      tried_until_success (backend_new cfg) (candidates cfg uc))"
  unfolding window_new_as_fold try_backend_fold candidates_def Let_def
  by (simp add: gst_gl_dummy_window_new_def gst_gl_window_init_def split: option.split)

lemma first_success_None:
  "first_success ok bs = None \<longleftrightarrow> (\<forall>b\<in>set bs. \<not> ok b)"
  by (induction bs) auto

lemma tried_until_success_Nil:
  "tried_until_success ok bs = [] \<longleftrightarrow> bs = []"
  by (cases bs) auto

lemma priority_order_complete: "b \<in> set priority_order"
  by (cases b) (simp_all add: priority_order_def)

lemma backend_len_name: "backend_len b = length (backend_name b)"
  by (cases b) simp_all

lemma user_allows_prefix:
  "user_allows (Some c) b \<longleftrightarrow> take (length (backend_name b)) c = backend_name b"
proof -
  have n: "backend_name b \<noteq> []" by (cases b) simp_all
  have "take (length (backend_name b)) c = backend_name b \<Longrightarrow> c \<noteq> []"
    using n by auto
  then show ?thesis
    using n by (auto simp: user_allows_def g_strstr_len_def backend_len_name)
qed

text \<open>
  C4. For every display that is not \<^verbatim>\<open>NULL\<close>, \<^verbatim>\<open>gst_gl_window_new\<close> returns a window: it
  carries the display and its navigation thread has been started. If no backend that is
  compiled in and allowed by the override has a constructor that succeeds (none compiled
  in, none allowed, or every allowed constructor returned \<^verbatim>\<open>NULL\<close>), the window returned is
  the freshly created dummy window.
\<close>

theorem window_new_returns_window:
  "\<exists>w. fst (gst_gl_window_new cfg user_choice (Some d)) = Some w
      \<and> win_display w = Some d \<and> nav_created w
      \<and> ((\<forall>b. have_window cfg b \<and> user_allows user_choice b \<longrightarrow> \<not> backend_new cfg b) \<longrightarrow>
           w = gst_gl_dummy_window_new
                 \<lparr>win_display := Some d, nav_alive := True, nav_created := True\<rparr>)"
proof -
  have "(\<forall>b. have_window cfg b \<and> user_allows user_choice b \<longrightarrow> \<not> backend_new cfg b) \<Longrightarrow>
        first_success (backend_new cfg) (candidates cfg user_choice) = None"
    by (simp add: first_success_None candidates_def)
  then show ?thesis
    by (auto simp: window_new_result)
qed

theorem window_new_returns_window_witness:
  "first_success (backend_new no_backends) (candidates no_backends None) = None
   \<and> fst (gst_gl_window_new no_backends None (Some 5))
       = Some (gst_gl_dummy_window_new
                 \<lparr>win_display := Some 5, nav_alive := True, nav_created := True\<rparr>)
   \<and> first_success (backend_new linux_no_x) (candidates linux_no_x (Some ''x11'')) = None
   \<and> fst (gst_gl_window_new linux_no_x (Some ''x11'') (Some 5))
       = Some (gst_gl_dummy_window_new
                 \<lparr>win_display := Some 5, nav_alive := True, nav_created := True\<rparr>)
   \<and> first_success (backend_new all_backends) (candidates all_backends (Some ''foo'')) = None
   \<and> fst (gst_gl_window_new all_backends (Some ''foo'') (Some 5))
       = Some (gst_gl_dummy_window_new
                 \<lparr>win_display := Some 5, nav_alive := True, nav_created := True\<rparr>)
   \<and> map_option klass (fst (gst_gl_window_new linux_no_x None (Some 5)))
       = Some (Platform Wayland)"
proof -
  have a: "\<forall>b. have_window no_backends b \<and> user_allows None b \<longrightarrow> \<not> backend_new no_backends b"
    by (simp add: no_backends_def)
  have b: "\<forall>b. have_window linux_no_x b \<and> user_allows (Some ''x11'') b \<longrightarrow> \<not> backend_new linux_no_x b"
    by (auto simp: linux_no_x_def user_allows_prefix)
  have c: "\<forall>b. have_window all_backends b \<and> user_allows (Some ''foo'') b \<longrightarrow> \<not> backend_new all_backends b"
  proof (intro allI impI)
    fix b assume "have_window all_backends b \<and> user_allows (Some ''foo'') b"
    then show "\<not> backend_new all_backends b"
      by (cases b) (simp_all add: user_allows_prefix)
  qed
  have n: "first_success (backend_new no_backends) (candidates no_backends None) = None"
    "first_success (backend_new linux_no_x) (candidates linux_no_x (Some ''x11'')) = None"
    "first_success (backend_new all_backends) (candidates all_backends (Some ''foo'')) = None"
    using a b c by (simp_all add: first_success_None candidates_def)
  have p: "map_option klass (fst (gst_gl_window_new linux_no_x None (Some 5)))
             = Some (Platform Wayland)"
    by code_simp
  show ?thesis
    using window_new_returns_window [of no_backends None 5]
      window_new_returns_window [of linux_no_x "Some ''x11''" 5]
      window_new_returns_window [of all_backends "Some ''foo''" 5] a b c n p
    by auto
qed

text \<open>
  C9, as the code has it. The constructors called are those of the backends that are
  compiled in and allowed by the override, in the fixed order cocoa, x11, win32, wayland,
  dispmanx, android, eagl, up to and including the first that returns a window. Without an
  override every compiled-in backend is allowed. With an override a backend is allowed only
  if the override starts with its name (lemma \<open>user_allows_prefix\<close>); an override that
  matches no backend name therefore has no constructor called at all, and the dummy window
  is created at once.
\<close>

theorem factory_tries_allowed_backends_in_order:
  "snd (gst_gl_window_new cfg user_choice (Some d))
     = tried_until_success (backend_new cfg)
         (filter (\<lambda>b. have_window cfg b \<and> user_allows user_choice b) priority_order)
   \<and> (user_choice = None \<longrightarrow>
        snd (gst_gl_window_new cfg user_choice (Some d))
          = tried_until_success (backend_new cfg) (filter (have_window cfg) priority_order))
   \<and> (\<not> matches_some_backend user_choice \<longrightarrow>
        snd (gst_gl_window_new cfg user_choice (Some d)) = []
        \<and> fst (gst_gl_window_new cfg user_choice (Some d))
            = Some (gst_gl_dummy_window_new
                      \<lparr>win_display := Some d, nav_alive := True, nav_created := True\<rparr>))"
proof (intro conjI impI)
  show "snd (gst_gl_window_new cfg user_choice (Some d))
     = tried_until_success (backend_new cfg)
         (filter (\<lambda>b. have_window cfg b \<and> user_allows user_choice b) priority_order)"
    by (simp add: window_new_result candidates_def)
next
  assume "user_choice = None"
  then show "snd (gst_gl_window_new cfg user_choice (Some d))
          = tried_until_success (backend_new cfg) (filter (have_window cfg) priority_order)"
    by (simp add: window_new_result candidates_def user_allows_def)
next
  assume "\<not> matches_some_backend user_choice"
  then have "\<forall>b. \<not> user_allows user_choice b"
    using priority_order_complete by (auto simp: matches_some_backend_def list_ex_iff)
  then have "candidates cfg user_choice = []"
    by (simp add: candidates_def)
  then show "snd (gst_gl_window_new cfg user_choice (Some d)) = []"
     "fst (gst_gl_window_new cfg user_choice (Some d))
            = Some (gst_gl_dummy_window_new
                      \<lparr>win_display := Some d, nav_alive := True, nav_created := True\<rparr>)"
    by (simp_all add: window_new_result)
qed

theorem factory_tries_allowed_backends_in_order_witness:
  "snd (gst_gl_window_new linux_no_x None (Some 5)) = [X11, Wayland]
   \<and> \<not> matches_some_backend (Some ''foo'')
   \<and> snd (gst_gl_window_new linux_no_x (Some ''foo'') (Some 5)) = []
   \<and> fst (gst_gl_window_new linux_no_x (Some ''foo'') (Some 5))
            = Some (gst_gl_dummy_window_new
                      \<lparr>win_display := Some 5, nav_alive := True, nav_created := True\<rparr>)"
proof -
  have m: "\<not> matches_some_backend (Some ''foo'')"
    by (simp add: matches_some_backend_def priority_order_def user_allows_prefix)
  have f: "filter (have_window linux_no_x) priority_order = [X11, Wayland]"
    by (simp add: linux_no_x_def priority_order_def)
  have t1: "snd (gst_gl_window_new linux_no_x None (Some 5))
          = tried_until_success (backend_new linux_no_x)
              (filter (have_window linux_no_x) priority_order)"
    using factory_tries_allowed_backends_in_order [of linux_no_x None 5] by blast
  have t2: "snd (gst_gl_window_new linux_no_x (Some ''foo'') (Some 5)) = []
        \<and> fst (gst_gl_window_new linux_no_x (Some ''foo'') (Some 5))
            = Some (gst_gl_dummy_window_new
                      \<lparr>win_display := Some 5, nav_alive := True, nav_created := True\<rparr>)"
    using factory_tries_allowed_backends_in_order [of linux_no_x "Some ''foo''" 5] m by blast
  have "tried_until_success (backend_new linux_no_x) [X11, Wayland] = [X11, Wayland]"
    by (simp add: linux_no_x_def)
  then show ?thesis using t1 t2 m f by simp
qed

text \<open>
  C9 as stated fails for an override that matches nothing. On a build with X11 and Wayland
  where only Wayland can connect, no override gives the walk X11, Wayland and a Wayland
  window; the override \<open>foo\<close> gives no walk at all and the dummy window.
\<close>

theorem unmatched_override_skips_backends_counterexample:
  "\<not> matches_some_backend (Some ''foo'')
   \<and> snd (gst_gl_window_new linux_no_x None (Some 5)) = [X11, Wayland]
   \<and> map_option klass (fst (gst_gl_window_new linux_no_x None (Some 5))) = Some (Platform Wayland)
   \<and> snd (gst_gl_window_new linux_no_x (Some ''foo'') (Some 5)) = []
   \<and> map_option klass (fst (gst_gl_window_new linux_no_x (Some ''foo'') (Some 5))) = Some Dummy"
  by code_simp

subsection \<open>The callback registry\<close>

text \<open>
  C8. Each kind of callback has one slot (callback, context pointer, destructor) in the
  window. Each of the three set-callback functions takes the window lock, calls the
  destructor found in the slot, if there is one, exactly once and with the context pointer
  found in the slot, then installs the new callback, context pointer and destructor, and
  releases the lock; nothing else happens.
\<close>

theorem set_callback_replaces_registration:
  "wtrace (gst_gl_window_set_draw_callback self w cb d n)
     = wtrace w @ [Window_lock] @ notify_events self (draw_notify w) (draw_data w)
         @ [Install Draw cb d n, Window_unlock]
   \<and> draw (gst_gl_window_set_draw_callback self w cb d n) = cb
   \<and> draw_data (gst_gl_window_set_draw_callback self w cb d n) = d
   \<and> draw_notify (gst_gl_window_set_draw_callback self w cb d n) = n
   \<and> wtrace (gst_gl_window_set_resize_callback self w cb d n)
     = wtrace w @ [Window_lock] @ notify_events self (resize_notify w) (resize_data w)
         @ [Install Resize cb d n, Window_unlock]
   \<and> resize (gst_gl_window_set_resize_callback self w cb d n) = cb
   \<and> resize_data (gst_gl_window_set_resize_callback self w cb d n) = d
   \<and> resize_notify (gst_gl_window_set_resize_callback self w cb d n) = n
   \<and> wtrace (gst_gl_window_set_close_callback self w cb d n)
     = wtrace w @ [Window_lock] @ notify_events self (close_notify w) (close_data w)
         @ [Install Close cb d n, Window_unlock]
   \<and> close (gst_gl_window_set_close_callback self w cb d n) = cb
   \<and> close_data (gst_gl_window_set_close_callback self w cb d n) = d
   \<and> close_notify (gst_gl_window_set_close_callback self w cb d n) = n"
  by (simp add: gst_gl_window_set_draw_callback_def gst_gl_window_set_resize_callback_def
      gst_gl_window_set_close_callback_def Let_def wlog_def call_notify_def notify_events_def
      split: option.split)

subsection \<open>Asynchronous messages and their destroy function\<close>


lemma run_client_message:
  "run_message t \<lparr>msg_callback = Some (Window_cb (Client c)), msg_data = d, msg_destroy = Some f\<rparr> w
     = wlog [Call t c d, Call t f d] w"
  by (simp add: run_message_def call_message_cb_def call_window_cb_def call_notify_def wlog_def)

lemma send_async_dummy:
  assumes "klass w = Dummy"
  shows "gst_gl_window_send_message_async self w (Some cb) d n
           = g_main_context_invoke self \<lparr>msg_callback = Some cb, msg_data = d, msg_destroy = n\<rparr> w"
  using assms
  by (simp add: gst_gl_window_send_message_async_def gst_gl_dummy_window_send_message_async_def)

text \<open>
  What the code does with an asynchronous message made of a client callback \<open>c\<close>, data
  \<open>d\<close> and destroy function \<open>f\<close>, on a dummy window whose main context is alive.
  \<^item> Sent by the thread that owns the context, the message runs inside the call:
    \<open>c (d)\<close>, then \<open>f (d)\<close>, once each, on that thread.
  \<^item> Sent by another thread, the message is put at the end of the queue and nothing is
    called.
  \<^item> When the message is at the head of the queue and the thread running the loop
    dispatches it, that thread calls \<open>c (d)\<close> and then \<open>f (d)\<close>, once each, and the
    message is no longer in the queue.
\<close>

lemma async_message_on_live_context:
  assumes "klass w = Dummy" and "main_context w = Some ctx" and "\<not> freed ctx"
  shows "(owner ctx = Some self \<longrightarrow>
            gst_gl_window_send_message_async self w (Some (Window_cb (Client c))) d (Some f)
              = wlog [Call self c d, Call self f d] w)
       \<and> (owner ctx \<noteq> Some self \<longrightarrow>
            gst_gl_window_send_message_async self w (Some (Window_cb (Client c))) d (Some f)
              = w\<lparr>main_context := Some (ctx\<lparr>sources := sources ctx @ [client_message c d f]\<rparr>)\<rparr>)
       \<and> (owner ctx = Some t \<and> loop_running ctx \<and> sources ctx = client_message c d f # ms \<longrightarrow>
            g_main_loop_dispatch w
              = wlog [Call t c d, Call t f d] (w\<lparr>main_context := Some (ctx\<lparr>sources := ms\<rparr>)\<rparr>))"
proof (intro conjI impI)
  assume "owner ctx = Some self"
  then show "gst_gl_window_send_message_async self w (Some (Window_cb (Client c))) d (Some f)
              = wlog [Call self c d, Call self f d] w"
    using assms by (simp add: send_async_dummy g_main_context_invoke_def run_client_message)
next
  assume "owner ctx \<noteq> Some self"
  then show "gst_gl_window_send_message_async self w (Some (Window_cb (Client c))) d (Some f)
              = w\<lparr>main_context := Some (ctx\<lparr>sources := sources ctx @ [client_message c d f]\<rparr>)\<rparr>"
    using assms by (simp add: send_async_dummy g_main_context_invoke_def client_message_def)
next
  assume "owner ctx = Some t \<and> loop_running ctx \<and> sources ctx = client_message c d f # ms"
  then show "g_main_loop_dispatch w
              = wlog [Call t c d, Call t f d] (w\<lparr>main_context := Some (ctx\<lparr>sources := ms\<rparr>)\<rparr>)"
    using assms
    by (simp add: g_main_loop_dispatch_def client_message_def run_client_message)
qed

text \<open>
  Closing a dummy window whose loop no thread is inside: nothing is called, the context is
  freed and the queue is gone, whatever was in it. No function of the window code calls
  the destroy function of a message except \<^verbatim>\<open>_run_message\<close>.
\<close>

lemma close_discards_pending_messages:
  assumes "main_context w = Some ctx" and "\<not> freed ctx" and "window_refs ctx"
    and "owner ctx = None"
  shows "wtrace (gst_gl_dummy_window_close w) = wtrace w"
    and "main_context (gst_gl_dummy_window_close w)
           = Some (ctx\<lparr>sources := [], window_refs := False, freed := True\<rparr>)"
    and "g_main_loop_dispatch (gst_gl_dummy_window_close w) = gst_gl_dummy_window_close w"
  using assms by (simp_all add: gst_gl_dummy_window_close_def g_main_loop_dispatch_def)

text \<open>
  Closing a dummy window while a thread is still inside its loop frees nothing: the
  context and the queue stay until that thread leaves the loop.
\<close>

lemma close_inside_loop_keeps_context:
  assumes "main_context w = Some ctx" and "\<not> freed ctx" and "window_refs ctx"
    and "owner ctx = Some t"
  shows "gst_gl_dummy_window_close w = w\<lparr>main_context := Some (ctx\<lparr>window_refs := False\<rparr>)\<rparr>"
  using assms by (simp add: gst_gl_dummy_window_close_def)

text \<open>
  C6 holds for every message that the window thread runs (lemma
  \<open>async_message_on_live_context\<close>) and fails for a message that is still queued at
  teardown. Thread 1 has run the dummy window's loop, the window has been quit and
  \<^verbatim>\<open>gst_gl_window_run\<close> has returned, so the window may be closed. Thread 2 sends a message
  with callback 20, data 5 and destroy function 21; it is queued, as no thread owns the
  context. The window is closed: the context is freed with the message in its queue.
  Neither function 20 nor the destroy function 21 has been called, and no dispatch calls
  them afterwards. The same happens to a message that thread 2 sent while the loop was
  running, when the window is quit before the loop dispatches it. Had the loop dispatched
  the message, function 20 and then function 21 would have been called, once each, by
  thread 1.
\<close>

theorem queued_message_not_destroyed_at_close:
  "map_option owner (main_context stopped_dummy) = Some None
   \<and> map_option loop_running (main_context stopped_dummy) = Some False
   \<and> map_option sources (main_context message_queued) = Some [client_message 20 5 21]
   \<and> wtrace message_queued = wtrace stopped_dummy
   \<and> wtrace queued_then_closed = wtrace stopped_dummy
   \<and> map_option freed (main_context queued_then_closed) = Some True
   \<and> map_option sources (main_context queued_then_closed) = Some []
   \<and> calls_of 20 queued_then_closed = 0
   \<and> calls_of 21 queued_then_closed = 0
   \<and> g_main_loop_dispatch queued_then_closed = queued_then_closed
   \<and> map_option sources (main_context queued_while_running) = Some [client_message 20 5 21]
   \<and> wtrace (g_main_loop_dispatch queued_while_running)
       = wtrace running_dummy @ [Call 1 20 5, Call 1 21 5]
   \<and> map_option freed (main_context quit_before_dispatch) = Some True
   \<and> map_option sources (main_context quit_before_dispatch) = Some []
   \<and> calls_of 20 quit_before_dispatch = 0
   \<and> calls_of 21 quit_before_dispatch = 0
   \<and> g_main_loop_dispatch quit_before_dispatch = quit_before_dispatch"
  by (intro conjI; code_simp)

subsection \<open>Quit and draw\<close>

text \<open>
  Nothing on the path of \<^verbatim>\<open>gst_gl_window_draw\<close> reads \<open>alive\<close>: each function of the
  path does to a window with the flag overwritten what it does to the window itself.
\<close>


lemma draw_cb_alive: "draw_cb t (w\<lparr>alive := a\<rparr>) = (draw_cb t w)\<lparr>alive := a\<rparr>"
  by (simp add: draw_cb_def wlog_def Let_def split: option.split)

lemma call_window_cb_alive:
  "call_window_cb t cb d (w\<lparr>alive := a\<rparr>) = (call_window_cb t cb d w)\<lparr>alive := a\<rparr>"
  by (cases cb) (simp_all add: call_window_cb_def wlog_def draw_cb_alive)

lemma call_window_cb_syncs: "syncs (call_window_cb t cb d w) = syncs w"
  by (cases cb) (simp_all add: call_window_cb_def wlog_def draw_cb_def Let_def split: option.split)

lemma run_message_sync_alive:
  "run_message_sync t addr (w\<lparr>alive := a\<rparr>) = (run_message_sync t addr w)\<lparr>alive := a\<rparr>"
  by (simp add: run_message_sync_def Let_def call_window_cb_alive call_window_cb_syncs
      split: option.split)

lemma run_message_alive:
  "run_message t m (w\<lparr>alive := a\<rparr>) = (run_message t m w)\<lparr>alive := a\<rparr>"
proof -
  have c: "\<And>cb. call_message_cb t cb (msg_data m) (w\<lparr>alive := a\<rparr>)
             = (call_message_cb t cb (msg_data m) w)\<lparr>alive := a\<rparr>"
    subgoal for cb
      by (cases cb) (simp_all add: call_message_cb_def call_window_cb_alive run_message_sync_alive)
    done
  show ?thesis
    by (simp add: run_message_def Let_def c call_notify_def wlog_def split: option.split)
qed

lemma send_message_async_alive:
  "gst_gl_window_send_message_async t (w\<lparr>alive := a\<rparr>) cb d n
     = (gst_gl_window_send_message_async t w cb d n)\<lparr>alive := a\<rparr>"
  by (simp add: gst_gl_window_send_message_async_def gst_gl_dummy_window_send_message_async_def
      g_main_context_invoke_def run_message_alive wlog_def Let_def
      split: option.split window_class.split)

lemma draw_ignores_alive:
  "gst_gl_window_draw t (w\<lparr>alive := a\<rparr>) = with_alive a (gst_gl_window_draw t w)"
proof -
  have s: "gst_gl_window_default_send_message t (w\<lparr>alive := a\<rparr>) cb d
             = with_alive a (gst_gl_window_default_send_message t w cb d)" for cb d
  proof -
    define w1 where
      "w1 = w\<lparr>syncs := syncs w
              @ [\<lparr>sync_fired = False, sync_callback = cb, sync_data = d\<rparr>]\<rparr>"
    define w2 where
      "w2 = gst_gl_window_send_message_async t w1 (Some Run_message_sync) (length (syncs w)) None"
    have l: "gst_gl_window_default_send_message t (w\<lparr>alive := a\<rparr>) cb d
               = (let x = gst_gl_window_send_message_async t (w1\<lparr>alive := a\<rparr>)
                            (Some Run_message_sync) (length (syncs w)) None
                  in if sync_fired (syncs x ! length (syncs w)) then Returned x else Waiting x)"
    proof -
      have e0: "(w\<lparr>alive := a\<rparr>)\<lparr>syncs := syncs (w\<lparr>alive := a\<rparr>)
                  @ [\<lparr>sync_fired = False, sync_callback = cb, sync_data = d\<rparr>]\<rparr>
                = w1\<lparr>alive := a\<rparr>"
        by (cases w) (simp add: w1_def)
      have len: "length (syncs (w\<lparr>alive := a\<rparr>)) = length (syncs w)"
        by simp
      show ?thesis
        by (simp only: gst_gl_window_default_send_message_def Let_def e0 len)
    qed
    have r: "gst_gl_window_default_send_message t w cb d
               = (if sync_fired (syncs w2 ! length (syncs w)) then Returned w2 else Waiting w2)"
      by (simp add: gst_gl_window_default_send_message_def Let_def w1_def w2_def)
    have m: "gst_gl_window_send_message_async t (w1\<lparr>alive := a\<rparr>)
               (Some Run_message_sync) (length (syncs w)) None = w2\<lparr>alive := a\<rparr>"
      by (simp only: send_message_async_alive w2_def)
    show ?thesis
      unfolding l r m by (simp add: Let_def)
  qed
  show ?thesis
    by (simp add: gst_gl_window_draw_def gst_gl_dummy_window_draw_def
        gst_gl_window_send_message_def s wlog_def split: window_class.split)
qed

text \<open>
  C7, as the code has it. \<^verbatim>\<open>gst_gl_window_quit\<close> takes the window lock, writes
  \<open>alive = FALSE\<close>, calls the class's \<open>quit\<close> and releases the lock, in that order;
  afterwards \<^verbatim>\<open>gst_gl_window_is_running\<close> is false. \<^verbatim>\<open>gst_gl_window_draw\<close> does nothing
  when \<open>is_drawing\<close> is set; it does not read \<open>alive\<close>, so whatever it does on a
  running window it does on a window that has been quit. The check of \<open>alive\<close> is made by
  the caller: for a sink whose window has been quit, \<^verbatim>\<open>gst_glimage_sink_redisplay\<close> returns
  false and leaves the sink as it was, without asking the window to draw.
\<close>

theorem quit_clears_alive_under_lock:
  "wtrace (gst_gl_window_quit w)
     = wtrace w @ [Window_lock, Write_alive False,
                   (case klass w of Dummy \<Rightarrow> Loop_quit | Platform b \<Rightarrow> Backend_vfunc b ''quit''),
                   Window_unlock]
   \<and> \<not> gst_gl_window_is_running (gst_gl_window_quit w)
   \<and> (is_drawing w \<longrightarrow> gst_gl_window_draw self w = Returned w)
   \<and> gst_gl_window_draw self (w\<lparr>alive := a\<rparr>) = with_alive a (gst_gl_window_draw self w)
   \<and> (gst_gl_context_get_window (sink_context s) = Some (view_of (gst_gl_window_quit w)) \<longrightarrow>
        gst_glimage_sink_redisplay r s = Some (False, s))"
proof -
  have "\<not> running (view_of (gst_gl_window_quit w))"
    by (cases "klass w")
       (simp_all add: view_of_def gst_gl_window_is_running_def gst_gl_window_quit_def
          gst_gl_dummy_window_quit_def wlog_def Let_def)
  then have "gst_gl_context_get_window (sink_context s) = Some (view_of (gst_gl_window_quit w)) \<Longrightarrow>
        gst_glimage_sink_redisplay r s = Some (False, s)"
    by (simp add: gst_glimage_sink_redisplay_def)
  moreover have "is_drawing w \<Longrightarrow> gst_gl_window_draw self w = Returned w"
    by (simp add: gst_gl_window_draw_def)
  moreover have "wtrace (gst_gl_window_quit w)
     = wtrace w @ [Window_lock, Write_alive False,
                   (case klass w of Dummy \<Rightarrow> Loop_quit | Platform b \<Rightarrow> Backend_vfunc b ''quit''),
                   Window_unlock]
     \<and> \<not> gst_gl_window_is_running (gst_gl_window_quit w)"
    by (cases "klass w")
       (simp_all add: gst_gl_window_is_running_def gst_gl_window_quit_def
          gst_gl_dummy_window_quit_def wlog_def Let_def)
  ultimately show ?thesis
    using draw_ignores_alive [of self a w] by blast
qed

theorem quit_clears_alive_under_lock_witness:
  "wtrace (gst_gl_window_quit running_dummy)
     = wtrace running_dummy @ [Window_lock, Write_alive False, Loop_quit, Window_unlock]
   \<and> gst_gl_window_is_running running_dummy
   \<and> \<not> gst_gl_window_is_running (gst_gl_window_quit running_dummy)
   \<and> is_drawing (running_dummy\<lparr>is_drawing := True\<rparr>)
   \<and> gst_gl_window_draw 2 (running_dummy\<lparr>is_drawing := True\<rparr>)
       = Returned (running_dummy\<lparr>is_drawing := True\<rparr>)
   \<and> gst_gl_context_get_window (sink_context sink_after_quit)
       = Some (view_of (gst_gl_window_quit running_dummy))
   \<and> gst_glimage_sink_redisplay compile_succeeds sink_after_quit = Some (False, sink_after_quit)"
proof -
  have k: "klass running_dummy = Dummy" "gst_gl_window_is_running running_dummy"
    by code_simp+
  have v: "gst_gl_context_get_window (sink_context sink_after_quit)
       = Some (view_of (gst_gl_window_quit running_dummy))"
    by (simp add: sink_after_quit_def gst_gl_context_get_window_def)
  have i: "is_drawing (running_dummy\<lparr>is_drawing := True\<rparr>)"
    by simp
  have q: "wtrace (gst_gl_window_quit running_dummy)
             = wtrace running_dummy @ [Window_lock, Write_alive False, Loop_quit, Window_unlock]
           \<and> \<not> gst_gl_window_is_running (gst_gl_window_quit running_dummy)
           \<and> gst_glimage_sink_redisplay compile_succeeds sink_after_quit
               = Some (False, sink_after_quit)"
    using quit_clears_alive_under_lock
            [of running_dummy 2 _ sink_after_quit compile_succeeds] k v
    by simp
  have d: "gst_gl_window_draw 2 (running_dummy\<lparr>is_drawing := True\<rparr>)
             = Returned (running_dummy\<lparr>is_drawing := True\<rparr>)"
    using quit_clears_alive_under_lock
            [of "running_dummy\<lparr>is_drawing := True\<rparr>" 2] i
    by blast
  show ?thesis
    using q d k v i by blast
qed

text \<open>
  C7 as stated fails: the window thread, which owns the dummy window's main context while
  it is inside the loop, quits the window and then calls \<^verbatim>\<open>gst_gl_window_draw\<close>. The draw
  message is run in place, and the registered draw callback (function 10), not called
  before, is called once after \<^verbatim>\<open>gst_gl_window_quit\<close> has returned.
\<close>

theorem draw_after_quit_runs_callback_counterexample:
  "draw running_dummy = Some 10
   \<and> map_option owner (main_context running_dummy) = Some (Some 1)
   \<and> \<not> alive (gst_gl_window_quit running_dummy)
   \<and> calls_of 10 (gst_gl_window_quit running_dummy) = 0
   \<and> quit_then_draw
       = Returned (outcome_window quit_then_draw)
   \<and> calls_of 10 (outcome_window quit_then_draw) = 1"
  by code_simp

section \<open>Properties of the synchronous message\<close>

subsection \<open>Which thread runs the callback\<close>

lemma run_sync_message:
  assumes "addr < length (syncs w)" and "sync_callback (syncs w ! addr) = Some (Client f)"
  shows "run_message t (sync_message addr) w
           = (wlog [Call t f (sync_data (syncs w ! addr))] w)
               \<lparr>syncs := (syncs w)[addr := (syncs w ! addr)\<lparr>sync_fired := True\<rparr>]\<rparr>"
  using assms
  by (simp add: run_message_def sync_message_def call_message_cb_def run_message_sync_def
      call_window_cb_def call_notify_def wlog_def Let_def)

text \<open>
  \<^verbatim>\<open>gst_gl_window_send_message (window, callback, data)\<close> on a dummy window whose main
  context is alive, for a client callback \<open>f\<close>.
  \<^item> Called by the thread that owns the context (the thread inside the window's loop), it
    runs \<open>f (data)\<close> on that thread, sets \<open>fired\<close> and returns.
  \<^item> Called by any other thread, it queues \<^verbatim>\<open>_run_message_sync\<close> for the struct, calls
    nothing and is parked in the wait; waking up with \<open>fired\<close> clear, it stays parked.
\<close>

lemma send_message_on_live_dummy:
  assumes "klass w = Dummy" and "main_context w = Some ctx" and "\<not> freed ctx"
  shows "owner ctx = Some self \<Longrightarrow>
           gst_gl_window_send_message self w (Some (Client f)) d
             = Returned (w\<lparr>syncs := syncs w
                   @ [\<lparr>sync_fired = True, sync_callback = Some (Client f), sync_data = d\<rparr>],
                 wtrace := wtrace w @ [Call self f d]\<rparr>)"
    and "owner ctx \<noteq> Some self \<Longrightarrow>
           gst_gl_window_send_message self w (Some (Client f)) d
             = Waiting (w\<lparr>syncs := syncs w
                   @ [\<lparr>sync_fired = False, sync_callback = Some (Client f), sync_data = d\<rparr>],
                 main_context :=
                   Some (ctx\<lparr>sources := sources ctx @ [sync_message (length (syncs w))]\<rparr>)\<rparr>)"
    and "owner ctx \<noteq> Some self \<Longrightarrow>
           gst_gl_window_default_send_message_wake (length (syncs w))
               (outcome_window (gst_gl_window_send_message self w (Some (Client f)) d))
             = Waiting (outcome_window (gst_gl_window_send_message self w (Some (Client f)) d))"
proof -
  define m where
    "m = \<lparr>sync_fired = False, sync_callback = Some (Client f), sync_data = d\<rparr>"
  define w1 where "w1 = w\<lparr>syncs := syncs w @ [m]\<rparr>"
  have a: "gst_gl_window_send_message_async self w1 (Some Run_message_sync) (length (syncs w)) None
             = g_main_context_invoke self (sync_message (length (syncs w))) w1"
    using assms(1) by (simp add: send_async_dummy sync_message_def w1_def)
  have c1: "main_context w1 = Some ctx" "addr < length (syncs w1)"
    "sync_callback (syncs w1 ! addr) = Some (Client f)" "sync_data (syncs w1 ! addr) = d"
    if "addr = length (syncs w)" for addr
    using that assms(2) by (simp_all add: w1_def m_def)
  have s: "gst_gl_window_send_message self w (Some (Client f)) d
             = (let w2 = g_main_context_invoke self (sync_message (length (syncs w))) w1
                in if sync_fired (syncs w2 ! length (syncs w)) then Returned w2 else Waiting w2)"
    by (simp add: gst_gl_window_send_message_def gst_gl_window_default_send_message_def Let_def
        a [unfolded w1_def m_def] w1_def m_def)
  {
    assume o: "owner ctx = Some self"
    have q: "g_main_context_invoke self (sync_message (length (syncs w))) w1
            = (wlog [Call self f d] w1)
                \<lparr>syncs := (syncs w1)[length (syncs w)
                             := (syncs w1 ! length (syncs w))\<lparr>sync_fired := True\<rparr>]\<rparr>"
      using o assms(3) c1 [OF refl] run_sync_message [of "length (syncs w)" w1 f self]
      by (simp add: g_main_context_invoke_def)
    show "gst_gl_window_send_message self w (Some (Client f)) d
             = Returned (w\<lparr>syncs := syncs w
                   @ [\<lparr>sync_fired = True, sync_callback = Some (Client f), sync_data = d\<rparr>],
                 wtrace := wtrace w @ [Call self f d]\<rparr>)"
      unfolding s q by (simp add: Let_def w1_def m_def wlog_def)
  }
  {
    assume o: "owner ctx \<noteq> Some self"
    have q: "g_main_context_invoke self (sync_message (length (syncs w))) w1
            = w1\<lparr>main_context :=
                   Some (ctx\<lparr>sources := sources ctx @ [sync_message (length (syncs w))]\<rparr>)\<rparr>"
      using o assms(3) c1 [OF refl] by (simp add: g_main_context_invoke_def)
    show r: "gst_gl_window_send_message self w (Some (Client f)) d
             = Waiting (w\<lparr>syncs := syncs w
                   @ [\<lparr>sync_fired = False, sync_callback = Some (Client f), sync_data = d\<rparr>],
                 main_context :=
                   Some (ctx\<lparr>sources := sources ctx @ [sync_message (length (syncs w))]\<rparr>)\<rparr>)"
      unfolding s q by (simp add: Let_def w1_def m_def)
    show "gst_gl_window_default_send_message_wake (length (syncs w))
               (outcome_window (gst_gl_window_send_message self w (Some (Client f)) d))
             = Waiting (outcome_window (gst_gl_window_send_message self w (Some (Client f)) d))"
      by (simp add: r gst_gl_window_default_send_message_wake_def)
  }
qed

text \<open>
  The queued message is run by the thread that owns the context, and by no other: when it
  is at the head of the queue, a dispatch by the owner \<open>t\<close> runs \<open>f (data)\<close> on \<open>t\<close> and
  sets \<open>fired\<close>; the sender, woken up, then returns.
\<close>

lemma dispatch_runs_sync_message_on_owner:
  assumes "main_context w = Some ctx" and "\<not> freed ctx" and "loop_running ctx"
    and "owner ctx = Some t" and "sources ctx = sync_message addr # ms"
    and "addr < length (syncs w)" and "syncs w ! addr = \<lparr>sync_fired = False,
           sync_callback = Some (Client f), sync_data = d\<rparr>"
  shows "wtrace (g_main_loop_dispatch w) = wtrace w @ [Call t f d]"
    and "gst_gl_window_default_send_message_wake addr (g_main_loop_dispatch w)
           = Returned (g_main_loop_dispatch w)"
    and "gst_gl_window_default_send_message_wake addr w = Waiting w"
proof -
  define w0 where "w0 = w\<lparr>main_context := Some (ctx\<lparr>sources := ms\<rparr>)\<rparr>"
  have d: "g_main_loop_dispatch w = run_message t (sync_message addr) w0"
    using assms(1-5) by (simp add: g_main_loop_dispatch_def w0_def)
  have r: "run_message t (sync_message addr) w0
             = (wlog [Call t f d] w0)
                 \<lparr>syncs := (syncs w0)[addr := (syncs w0 ! addr)\<lparr>sync_fired := True\<rparr>]\<rparr>"
    using run_sync_message [of addr w0 f t] assms(6,7) by (simp add: w0_def)
  show "wtrace (g_main_loop_dispatch w) = wtrace w @ [Call t f d]"
    unfolding d r by (simp add: wlog_def w0_def)
  show "gst_gl_window_default_send_message_wake addr (g_main_loop_dispatch w)
           = Returned (g_main_loop_dispatch w)"
    using assms(6) unfolding d r
    by (simp add: gst_gl_window_default_send_message_wake_def wlog_def w0_def)
  show "gst_gl_window_default_send_message_wake addr w = Waiting w"
    using assms(7) by (simp add: gst_gl_window_default_send_message_wake_def)
qed

subsection \<open>The hand-shake between sender and runner\<close>

lemma fired_and_released: "has_fired p \<Longrightarrow> \<not> runner_holds p \<Longrightarrow> p = R_done"
  by (cases p) simp_all

lemma hs_inv_init: "hs_inv f d (hs_init (Some f) d)"
  by (simp add: hs_inv_def hs_init_def)

lemma hs_invD:
  assumes "hs_inv f d h"
  shows "hs_callback h = Some f" and "hs_data h = d" and "sent h \<or> rpc h = R_idle"
    and "sent h \<longleftrightarrow> spc h \<noteq> S_send"
    and "hs_ran h = (if called (rpc h) then [(Runner, f, d)] else [])"
    and "fired h \<longleftrightarrow> has_fired (rpc h)"
    and "signalled h \<longleftrightarrow> has_signalled (rpc h)"
    and "mutex h = (if runner_holds (rpc h) then Some Runner
                   else if sender_holds (spc h) then Some Sender else None)"
    and "\<not> (runner_holds (rpc h) \<and> sender_holds (spc h))"
    and "past_loop (spc h) \<longrightarrow> rpc h = R_done"
  using assms unfolding hs_inv_def by blast+

lemma sender_step_cases:
  assumes "sender_step h = Some h'"
  obtains "spc h = S_send" "h' = h\<lparr>fired := False, sent := True, spc := S_lock\<rparr>"
  | "spc h = S_lock" "mutex h = None" "h' = h\<lparr>mutex := Some Sender, spc := S_test\<rparr>"
  | "spc h = S_test" "\<not> fired h" "h' = h\<lparr>mutex := None, spc := S_wait\<rparr>"
  | "spc h = S_test" "fired h" "h' = h\<lparr>spc := S_unlock\<rparr>"
  | "spc h = S_wait" "mutex h = None" "h' = h\<lparr>mutex := Some Sender, spc := S_test\<rparr>"
  | "spc h = S_unlock" "h' = h\<lparr>mutex := None, spc := S_done\<rparr>"
  using assms by (cases "spc h") (simp_all add: sender_step_def split: if_splits)

lemma hs_inv_sender:
  assumes i: "hs_inv f d h" and s: "sender_step h = Some h'"
  shows "hs_inv f d h'"
  using s
proof (cases rule: sender_step_cases)
  case 1
  then have "rpc h = R_idle" using hs_invD(3,4) [OF i] by simp
  then show ?thesis using hs_invD [OF i] 1 by (simp add: hs_inv_def)
next
  case 2
  then have "\<not> runner_holds (rpc h)" using hs_invD(8) [OF i] by (simp split: if_splits)
  then show ?thesis using hs_invD [OF i] 2 by (simp add: hs_inv_def)
next
  case 3
  then show ?thesis using hs_invD [OF i] by (simp add: hs_inv_def)
next
  case 4
  then have "has_fired (rpc h)" "\<not> runner_holds (rpc h)"
    using hs_invD(6,9) [OF i] by simp_all
  then have "rpc h = R_done" by (rule fired_and_released)
  then show ?thesis using hs_invD [OF i] 4 by (simp add: hs_inv_def)
next
  case 5
  then have "\<not> runner_holds (rpc h)" using hs_invD(8) [OF i] by (simp split: if_splits)
  then show ?thesis using hs_invD [OF i] 5 by (simp add: hs_inv_def)
next
  case 6
  then have "rpc h = R_done" using hs_invD(10) [OF i] by simp
  then show ?thesis using hs_invD [OF i] 6 by (simp add: hs_inv_def)
qed

lemma runner_step_cases:
  assumes "runner_step h = Some h'"
  obtains "rpc h = R_idle" "sent h" "h' = h\<lparr>rpc := R_lock\<rparr>"
  | "rpc h = R_lock" "mutex h = None" "h' = h\<lparr>mutex := Some Runner, rpc := R_call\<rparr>"
  | "rpc h = R_call"
    "h' = (case hs_callback h of
             None \<Rightarrow> h
           | Some f \<Rightarrow> h\<lparr>hs_ran := hs_ran h @ [(Runner, f, hs_data h)]\<rparr>)\<lparr>rpc := R_fire\<rparr>"
  | "rpc h = R_fire" "h' = h\<lparr>fired := True, rpc := R_signal\<rparr>"
  | "rpc h = R_signal" "h' = h\<lparr>signalled := True, rpc := R_unlock\<rparr>"
  | "rpc h = R_unlock" "h' = h\<lparr>mutex := None, rpc := R_done\<rparr>"
  using assms by (cases "rpc h") (simp_all add: runner_step_def split: if_splits)

lemma hs_inv_runner:
  assumes i: "hs_inv f d h" and s: "runner_step h = Some h'"
  shows "hs_inv f d h'"
  using s
proof (cases rule: runner_step_cases)
  case 1
  then have "\<not> past_loop (spc h)" using hs_invD(10) [OF i] by auto
  then show ?thesis using hs_invD [OF i] 1 by (simp add: hs_inv_def)
next
  case 2
  then have "\<not> sender_holds (spc h)" using hs_invD(8) [OF i] by (simp split: if_splits)
  moreover have "\<not> past_loop (spc h)" using 2 hs_invD(10) [OF i] by auto
  ultimately show ?thesis using hs_invD [OF i] 2 by (simp add: hs_inv_def)
next
  case 3
  then have "\<not> sender_holds (spc h)" using hs_invD(9) [OF i] by simp
  moreover have "\<not> past_loop (spc h)" using 3 hs_invD(10) [OF i] by auto
  ultimately show ?thesis using hs_invD [OF i] 3 by (simp add: hs_inv_def)
next
  case 4
  then have "\<not> sender_holds (spc h)" using hs_invD(9) [OF i] by simp
  moreover have "\<not> past_loop (spc h)" using 4 hs_invD(10) [OF i] by auto
  ultimately show ?thesis using hs_invD [OF i] 4 by (simp add: hs_inv_def)
next
  case 5
  then have "\<not> sender_holds (spc h)" using hs_invD(9) [OF i] by simp
  moreover have "\<not> past_loop (spc h)" using 5 hs_invD(10) [OF i] by auto
  ultimately show ?thesis using hs_invD [OF i] 5 by (simp add: hs_inv_def)
next
  case 6
  then have "\<not> sender_holds (spc h)" using hs_invD(9) [OF i] by simp
  moreover have "\<not> past_loop (spc h)" using 6 hs_invD(10) [OF i] by auto
  ultimately show ?thesis using hs_invD [OF i] 6 by (simp add: hs_inv_def)
qed

lemma hs_inv_step:
  assumes "hs_inv f d h"
  shows "hs_inv f d (case hs_step a h of None \<Rightarrow> h | Some h' \<Rightarrow> h')"
proof (cases "hs_step a h")
  case None
  then show ?thesis using assms by simp
next
  case (Some h')
  then have "hs_inv f d h'"
    using assms hs_inv_sender [of f d h h'] hs_inv_runner [of f d h h']
    by (cases a) (simp_all add: hs_step_def)
  then show ?thesis using Some by simp
qed

lemma hs_inv_exec: "hs_inv f d h \<Longrightarrow> hs_inv f d (hs_exec sched h)"
proof (induction sched arbitrary: h)
  case Nil
  then show ?case by simp
next
  case (Cons a as)
  from Cons.prems have "hs_inv f d (case hs_step a h of None \<Rightarrow> h | Some h' \<Rightarrow> h')"
    by (rule hs_inv_step)
  then show ?case using Cons.IH by simp
qed

text \<open>
  Under every schedule of a sender and a runner that is another thread: if
  \<^verbatim>\<open>gst_gl_window_default_send_message\<close> has returned, then \<^verbatim>\<open>_run_message_sync\<close> has
  returned before it: the callback has been run exactly once, by the runner, \<open>fired\<close> has
  been set after it, the condition has been signalled and the mutex released.
\<close>

lemma handshake_returns_after_runner:
  assumes "spc (hs_exec sched (hs_init (Some f) d)) = S_done"
  shows "rpc (hs_exec sched (hs_init (Some f) d)) = R_done"
    and "hs_ran (hs_exec sched (hs_init (Some f) d)) = [(Runner, f, d)]"
    and "fired (hs_exec sched (hs_init (Some f) d))"
    and "signalled (hs_exec sched (hs_init (Some f) d))"
    and "mutex (hs_exec sched (hs_init (Some f) d)) = None"
proof -
  define h where "h = hs_exec sched (hs_init (Some f) d)"
  have i: "hs_inv f d h"
    unfolding h_def by (rule hs_inv_exec [OF hs_inv_init])
  have s: "spc h = S_done" using assms by (simp add: h_def)
  have r: "rpc h = R_done" using hs_invD(10) [OF i] s by simp
  show "rpc (hs_exec sched (hs_init (Some f) d)) = R_done"
    using r by (simp add: h_def)
  show "hs_ran (hs_exec sched (hs_init (Some f) d)) = [(Runner, f, d)]"
    using hs_invD(5) [OF i] r by (simp add: h_def)
  show "fired (hs_exec sched (hs_init (Some f) d))"
    using hs_invD(6) [OF i] r by (simp add: h_def)
  show "signalled (hs_exec sched (hs_init (Some f) d))"
    using hs_invD(7) [OF i] r by (simp add: h_def)
  show "mutex (hs_exec sched (hs_init (Some f) d)) = None"
    using hs_invD(8) [OF i] r s by (simp add: h_def)
qed

text \<open>The sender never returns while the runner has not been called.\<close>

lemma handshake_blocks_without_runner:
  assumes "Runner \<notin> set sched"
  shows "spc (hs_exec sched (hs_init (Some f) d)) \<noteq> S_done"
proof
  assume a: "spc (hs_exec sched (hs_init (Some f) d)) = S_done"
  have n: "Runner \<notin> set s \<Longrightarrow> hs_ran (hs_exec s h) = hs_ran h" for s h
  proof (induction s arbitrary: h)
    case Nil
    then show ?case by simp
  next
    case (Cons x xs)
    then have x: "x = Sender" by (cases x) simp_all
    have "hs_ran (case sender_step h of None \<Rightarrow> h | Some h' \<Rightarrow> h') = hs_ran h"
      by (cases "spc h") (simp_all add: sender_step_def)
    then show ?case using Cons by (simp add: x hs_step_def)
  qed
  have "hs_ran (hs_exec sched (hs_init (Some f) d)) = []"
    using n [OF assms] by (simp add: hs_init_def)
  then show False using handshake_returns_after_runner(2) [OF a] by simp
qed

text \<open>Two schedules under which the sender does return.\<close>

lemma handshake_schedules_return:
  "spc (hs_exec late_runner (hs_init (Some 3) 4)) = S_done"
  "spc (hs_exec early_runner (hs_init (Some 3) 4)) = S_done"
  by code_simp+

subsection \<open>A message sent before the window is opened\<close>

text \<open>
  C1. On a dummy window that is open, \<^verbatim>\<open>gst_gl_window_send_message\<close> behaves as claimed:
  the callback is run by the thread that owns the window's main context and by no other
  (lemmas \<open>send_message_on_live_dummy\<close> and \<open>dispatch_runs_sync_message_on_owner\<close>), and
  the sender returns only after \<^verbatim>\<open>_run_message_sync\<close> has run the callback, set \<open>fired\<close>
  and signalled (lemma \<open>handshake_returns_after_runner\<close>). Thread 2 sending to the
  running dummy window is parked; the loop thread 1 dispatches the message and calls
  function 20 on data 5; thread 2 then returns.

  On a dummy window that has not been opened the claim fails. The window's
  \<^verbatim>\<open>main_context\<close> is \<^verbatim>\<open>NULL\<close>, and \<^verbatim>\<open>g_main_context_invoke\<close> falls back to the default main
  context.
  \<^item> Where no thread runs the default main context, thread 2, the sender, acquires it
    and runs function 20 on data 5 itself, inside the call; the call returns with the
    callback run once, on the sender's thread.
  \<^item> Where thread 9 runs the application's main loop, the message is queued there; thread
    2 is parked until thread 9 dispatches the message and runs function 20 on data 5.
  In either case no thread runs the window's loop, and the callback is run by a thread
  that is not the window's.
\<close>

theorem send_message_before_open_runs_off_window_thread:
  "main_context unopened_dummy = None
   \<and> sent_before_open = Returned (outcome_window sent_before_open)
   \<and> wtrace (outcome_window sent_before_open) = [Call 2 20 5]
   \<and> main_context (outcome_window sent_before_open) = None
   \<and> sent_before_open_app_loop = Waiting (outcome_window sent_before_open_app_loop)
   \<and> wtrace (outcome_window sent_before_open_app_loop) = []
   \<and> default_sources (default_context (outcome_window sent_before_open_app_loop))
       = [sync_message 0]
   \<and> wtrace (g_main_default_dispatch (outcome_window sent_before_open_app_loop))
       = [Call 9 20 5]
   \<and> gst_gl_window_default_send_message_wake 0
         (g_main_default_dispatch (outcome_window sent_before_open_app_loop))
       = Returned (g_main_default_dispatch (outcome_window sent_before_open_app_loop))
   \<and> map_option owner (main_context running_dummy) = Some (Some 1)
   \<and> sent_while_running = Waiting (outcome_window sent_while_running)
   \<and> wtrace (outcome_window sent_while_running) = wtrace running_dummy
   \<and> wtrace (g_main_loop_dispatch (outcome_window sent_while_running))
       = wtrace running_dummy @ [Call 1 20 5]
   \<and> gst_gl_window_default_send_message_wake 0
         (g_main_loop_dispatch (outcome_window sent_while_running))
       = Returned (g_main_loop_dispatch (outcome_window sent_while_running))"
  by (intro conjI; code_simp)

end
